theory Spec2Isabelle
  imports Main "HOL-Library.Log_Nat"
begin

section \<open>JavaScript values used by the SDK\<close>

text \<open>
  A JavaScript \<open>number\<close> is an IEEE-754 binary64 value. Finite values are carried as
  the rational they denote; the two infinities and NaN are separate constructors. The
  sign of zero is not represented (no operation of the modelled code observes it: every
  division has a divisor that is a non-zero constant or is guarded by \<open>> 0\<close>).
\<close>

datatype number = Fin rat | PInf | NInf | NaN

text \<open>What the code throws, and the rejection of a remote read.\<close>

datatype error =
    TypeError
  | RangeError
  | SyntaxError
  | ZodError
  | RemoteError string
  | PairNotFound string

subsection \<open>Arithmetic of numbers\<close>

text \<open>Round to the nearest integer, a tie to the even one.\<close>

definition rne :: "rat \<Rightarrow> int" where
  "rne y =
     (let f = \<lfloor>y\<rfloor>; r = y - of_int f
      in if r < 1 / 2 then f else if 1 / 2 < r then f + 1 else if even f then f else f + 1)"

text \<open>The binary exponent of a non-zero rational: \<open>2 ^ ilog2 x \<le> \<bar>x\<bar> < 2 ^ (ilog2 x + 1)\<close>.\<close>

definition ilog2 :: "rat \<Rightarrow> int" where
  "ilog2 x =
     (let (p, q) = quotient_of \<bar>x\<bar>;
          e = int (floorlog 2 (nat p)) - int (floorlog 2 (nat q))
      in if 2 powi e \<le> \<bar>x\<bar> then e else e - 1)"

text \<open>
  The binary64 value of an exact result: 53 significant bits, so the unit in the last
  place of \<open>x\<close> is \<open>2 ^ (ilog2 x - 52)\<close>, but not below \<open>2 ^ - 1074\<close> (subnormal numbers);
  round to nearest, ties to even; overflow to an infinity when the rounded magnitude
  reaches \<open>2 ^ 1024\<close>.
\<close>

definition ulp_exp :: "rat \<Rightarrow> int" where
  "ulp_exp x = max (ilog2 x - 52) (- 1074)"

definition nearest :: "rat \<Rightarrow> rat" where
  "nearest x = (if x = 0 then 0 else of_int (rne (x / 2 powi ulp_exp x)) * 2 powi ulp_exp x)"

definition round64 :: "rat \<Rightarrow> number" where
  "round64 x =
     (if 2 ^ 1024 \<le> nearest x then PInf
      else if nearest x \<le> - (2 ^ 1024) then NInf
      else Fin (nearest x))"

text \<open>The operators \<open>*\<close>, \<open>/\<close> and \<open>+\<close> of JavaScript numbers, and the comparison \<open>>\<close>.\<close>

fun fmul :: "number \<Rightarrow> number \<Rightarrow> number" where
  "fmul (Fin a) (Fin b) = round64 (a * b)"
| "fmul NaN _ = NaN"
| "fmul _ NaN = NaN"
| "fmul (Fin a) PInf = (if a = 0 then NaN else if 0 < a then PInf else NInf)"
| "fmul (Fin a) NInf = (if a = 0 then NaN else if 0 < a then NInf else PInf)"
| "fmul PInf (Fin b) = (if b = 0 then NaN else if 0 < b then PInf else NInf)"
| "fmul NInf (Fin b) = (if b = 0 then NaN else if 0 < b then NInf else PInf)"
| "fmul PInf PInf = PInf"
| "fmul PInf NInf = NInf"
| "fmul NInf PInf = NInf"
| "fmul NInf NInf = PInf"

fun fdiv :: "number \<Rightarrow> number \<Rightarrow> number" where
  "fdiv (Fin a) (Fin b) =
     (if b = 0 then (if a = 0 then NaN else if 0 < a then PInf else NInf)
      else round64 (a / b))"
| "fdiv NaN _ = NaN"
| "fdiv _ NaN = NaN"
| "fdiv (Fin a) PInf = Fin 0"
| "fdiv (Fin a) NInf = Fin 0"
| "fdiv PInf (Fin b) = (if 0 \<le> b then PInf else NInf)"
| "fdiv NInf (Fin b) = (if 0 \<le> b then NInf else PInf)"
| "fdiv PInf PInf = NaN"
| "fdiv PInf NInf = NaN"
| "fdiv NInf PInf = NaN"
| "fdiv NInf NInf = NaN"

fun fadd :: "number \<Rightarrow> number \<Rightarrow> number" where
  "fadd (Fin a) (Fin b) = round64 (a + b)"
| "fadd NaN _ = NaN"
| "fadd _ NaN = NaN"
| "fadd PInf NInf = NaN"
| "fadd NInf PInf = NaN"
| "fadd PInf _ = PInf"
| "fadd NInf _ = NInf"
| "fadd (Fin a) PInf = PInf"
| "fadd (Fin a) NInf = NInf"

fun fgt :: "number \<Rightarrow> number \<Rightarrow> bool" where
  "fgt (Fin a) (Fin b) = (b < a)"
| "fgt NaN _ = False"
| "fgt _ NaN = False"
| "fgt PInf PInf = False"
| "fgt PInf _ = True"
| "fgt NInf _ = False"
| "fgt (Fin a) PInf = False"
| "fgt (Fin a) NInf = True"

text \<open>A number is falsy (in \<open>x || 0\<close>) when it is zero or NaN.\<close>

fun falsy :: "number \<Rightarrow> bool" where
  "falsy (Fin a) = (a = 0)"
| "falsy NaN = True"
| "falsy _ = False"

fun Math_floor :: "number \<Rightarrow> number" where
  "Math_floor (Fin a) = Fin (of_int \<lfloor>a\<rfloor>)"
| "Math_floor x = x"

text \<open>\<open>BigInt(x)\<close> of a number throws a RangeError unless the number is an integer.\<close>

fun BigInt :: "number \<Rightarrow> error + int" where
  "BigInt (Fin a) = (if of_int \<lfloor>a\<rfloor> = a then Inr \<lfloor>a\<rfloor> else Inl RangeError)"
| "BigInt _ = Inl RangeError"

text \<open>\<open>Number(x)\<close> of a bigint is the nearest binary64 value.\<close>

definition Number :: "int \<Rightarrow> number" where
  "Number i = round64 (of_int i)"

subsection \<open>Conversion helpers (types.ts)\<close>

text \<open>The argument of \<open>fromBlockchain10\<close> and \<open>fromBlockchain6\<close> is the bigint \<open>BigInt(value)\<close>.\<close>

definition fromBlockchain10 :: "int \<Rightarrow> number" where
  "fromBlockchain10 v = fdiv (Number v) (Fin (10 ^ 10))"

definition fromBlockchain6 :: "int \<Rightarrow> number" where
  "fromBlockchain6 v = fdiv (Number v) (Fin (10 ^ 6))"

definition toBlockchain10 :: "number \<Rightarrow> error + int" where
  "toBlockchain10 v = BigInt (Math_floor (fmul v (Fin (10 ^ 10))))"

definition toBlockchain6 :: "number \<Rightarrow> error + int" where
  "toBlockchain6 v = BigInt (Math_floor (fmul v (Fin (10 ^ 6))))"




subsection \<open>JSON\<close>

text \<open>The result of \<open>JSON.parse\<close>: an object is its list of properties, one entry per key.\<close>

datatype json =
    JNull
  | JBool bool
  | JNum number
  | JStr string
  | JArr "json list"
  | JObj "(string \<times> json) list"

section \<open>FeedClient (src/feed/feed\_client.ts)\<close>

subsection \<open>The price-feed schema (types.ts)\<close>

record Price =
  price :: string
  conf :: string
  expo :: number
  publishTime :: number

record PriceFeedResponse =
  id' :: string
  price' :: Price
  emaPrice :: Price

text \<open>\<open>z.string()\<close> and \<open>z.number()\<close>: the value has the JavaScript type, and a number is not NaN.\<close>

fun z_string :: "json option \<Rightarrow> error + string" where
  "z_string (Some (JStr s)) = Inr s"
| "z_string _ = Inl ZodError"

fun z_number :: "json option \<Rightarrow> error + number" where
  "z_number (Some (JNum n)) = (if n = NaN then Inl ZodError else Inr n)"
| "z_number _ = Inl ZodError"

text \<open>\<open>PriceSchema\<close> and \<open>EmaPriceSchema\<close> have the same four fields; unknown keys are dropped.\<close>

fun PriceSchema_parse :: "json option \<Rightarrow> error + Price" where
  "PriceSchema_parse (Some (JObj kv)) =
     (case z_string (map_of kv ''price'') of Inl e \<Rightarrow> Inl e | Inr p \<Rightarrow>
      case z_string (map_of kv ''conf'') of Inl e \<Rightarrow> Inl e | Inr c \<Rightarrow>
      case z_number (map_of kv ''expo'') of Inl e \<Rightarrow> Inl e | Inr x \<Rightarrow>
      case z_number (map_of kv ''publishTime'') of Inl e \<Rightarrow> Inl e | Inr t \<Rightarrow>
        Inr \<lparr>price = p, conf = c, expo = x, publishTime = t\<rparr>)"
| "PriceSchema_parse _ = Inl ZodError"

fun PriceFeedResponseSchema_parse :: "json \<Rightarrow> error + PriceFeedResponse" where
  "PriceFeedResponseSchema_parse (JObj kv) =
     (case z_string (map_of kv ''id'') of Inl e \<Rightarrow> Inl e | Inr i \<Rightarrow>
      case PriceSchema_parse (map_of kv ''price'') of Inl e \<Rightarrow> Inl e | Inr p \<Rightarrow>
      case PriceSchema_parse (map_of kv ''emaPrice'') of Inl e \<Rightarrow> Inl e | Inr m \<Rightarrow>
        Inr \<lparr>id' = i, price' = p, emaPrice = m\<rparr>)"
| "PriceFeedResponseSchema_parse _ = Inl ZodError"

subsection \<open>The client and the runtime around it\<close>

type_synonym feedId = string

text \<open>An observer is a function object; \<open>indexOf\<close> compares by identity, so a callback is its identity.\<close>

type_synonym callback = nat

datatype readyState = CONNECTING | OPEN | CLOSING | CLOSED

datatype wire = Subscribe "feedId list" | Unsubscribe "feedId list"

datatype hook = OnError | OnClose

text \<open>
  The fields of the class. \<open>callbacks\<close> is a JavaScript \<open>Map\<close>: an association list in
  insertion order with one entry per key. \<open>ws\<close> is the index of the current socket in
  the runtime's socket table. The optional hooks \<open>onError\<close> and \<open>onClose\<close> are present
  or not.
\<close>

record FeedClient =
  ws :: "nat option"
  callbacks :: "(feedId \<times> callback list) list"
  onError :: bool
  onClose :: bool
  reconnectAttempts :: nat

definition maxReconnectAttempts :: nat where
  "maxReconnectAttempts = 5"

definition reconnectDelay :: nat where
  "reconnectDelay = 1000"

text \<open>
  The runtime: every socket the client created with its ready state, the delays of the
  timers the client set with \<open>setTimeout\<close> (each runs \<open>listenForPriceUpdates\<close>) and how
  many of them have fired, the messages sent, the observer calls made and the hooks
  called. Observers and hooks are opaque: they do not call back into the client.
\<close>

record runtime =
  client :: FeedClient
  sockets :: "readyState list"
  timers :: "nat list"
  fired :: nat
  sent :: "(nat \<times> wire) list"
  delivered :: "(callback \<times> PriceFeedResponse) list"
  hooks :: "hook list"

definition new_FeedClient :: "bool \<Rightarrow> bool \<Rightarrow> runtime" where
  "new_FeedClient onE onC =
     \<lparr>client = \<lparr>ws = None, callbacks = [], onError = onE, onClose = onC, reconnectAttempts = 0\<rparr>,
      sockets = [], timers = [], fired = 0, sent = [], delivered = [], hooks = []\<rparr>"

text \<open>\<open>Map.set\<close>: replaces the value of a present key in place, appends an absent key.\<close>

fun map_set :: "'k \<Rightarrow> 'v \<Rightarrow> ('k \<times> 'v) list \<Rightarrow> ('k \<times> 'v) list" where
  "map_set k v [] = [(k, v)]"
| "map_set k v ((k', v') # kvs) = (if k' = k then (k, v) # kvs else (k', v') # map_set k v kvs)"

definition registerPriceFeedCallback :: "feedId \<Rightarrow> callback \<Rightarrow> runtime \<Rightarrow> runtime" where
  "registerPriceFeedCallback feedId cb w =
     (let cbs = callbacks (client w);
          cbs' = (if map_of cbs feedId = None then map_set feedId [] cbs else cbs);
          cbs'' = map_set feedId (the (map_of cbs' feedId) @ [cb]) cbs'
      in w\<lparr>client := (client w)\<lparr>callbacks := cbs''\<rparr>\<rparr>)"

text \<open>\<open>indexOf\<close> and \<open>splice(index, 1)\<close>: the first occurrence is removed; the key stays.\<close>

definition unregisterPriceFeedCallback :: "feedId \<Rightarrow> callback \<Rightarrow> runtime \<Rightarrow> runtime" where
  "unregisterPriceFeedCallback feedId cb w =
     (case map_of (callbacks (client w)) feedId of
        None \<Rightarrow> w
      | Some feedCallbacks \<Rightarrow>
          if cb \<in> set feedCallbacks
          then w\<lparr>client := (client w)\<lparr>callbacks :=
                 map_set feedId (remove1 cb feedCallbacks) (callbacks (client w))\<rparr>\<rparr>
          else w)"

text \<open>
  \<open>listenForPriceUpdates\<close>: \<open>new WebSocket(url)\<close> either throws (the promise is rejected and
  nothing changes) or yields a fresh socket in state CONNECTING that becomes \<open>this.ws\<close>;
  the four handlers below are attached to it.
\<close>

definition listenForPriceUpdates :: "bool \<Rightarrow> runtime \<Rightarrow> runtime" where
  "listenForPriceUpdates constructed w =
     (if constructed
      then w\<lparr>client := (client w)\<lparr>ws := Some (length (sockets w))\<rparr>,
             sockets := sockets w @ [CONNECTING]\<rparr>
      else w)"

definition subscribeToPriceFeeds :: "feedId list \<Rightarrow> runtime \<Rightarrow> runtime" where
  "subscribeToPriceFeeds feedIds w =
     (case ws (client w) of
        None \<Rightarrow> w
      | Some s \<Rightarrow>
          if s < length (sockets w) \<and> sockets w ! s = OPEN
          then w\<lparr>sent := sent w @ [(s, Subscribe feedIds)]\<rparr>
          else w)"

definition unsubscribeFromPriceFeeds :: "feedId list \<Rightarrow> runtime \<Rightarrow> runtime" where
  "unsubscribeFromPriceFeeds feedIds w =
     (case ws (client w) of
        None \<Rightarrow> w
      | Some s \<Rightarrow>
          if s < length (sockets w) \<and> sockets w ! s = OPEN
          then w\<lparr>sent := sent w @ [(s, Unsubscribe feedIds)]\<rparr>
          else w)"

text \<open>The \<open>open\<close> handler.\<close>

definition on_open :: "runtime \<Rightarrow> runtime" where
  "on_open w =
     (let w1 = w\<lparr>client := (client w)\<lparr>reconnectAttempts := 0\<rparr>\<rparr>;
          feedIds = map fst (callbacks (client w1))
      in if length feedIds > 0 then subscribeToPriceFeeds feedIds w1 else w1)"

text \<open>
  \<open>handlePriceUpdate\<close>: the schema is checked, then every callback of the feed is called
  in order; an exception of the schema or of a callback is caught and logged.
\<close>

definition handlePriceUpdate :: "json \<Rightarrow> runtime \<Rightarrow> runtime" where
  "handlePriceUpdate message w =
     (case PriceFeedResponseSchema_parse message of
        Inl e \<Rightarrow> w
      | Inr priceFeed \<Rightarrow>
          (case map_of (callbacks (client w)) (id' priceFeed) of
             None \<Rightarrow> w
           | Some cbs \<Rightarrow> w\<lparr>delivered := delivered w @ map (\<lambda>cb. (cb, priceFeed)) cbs\<rparr>))"

text \<open>
  \<open>message.type\<close>: reading a property of \<open>null\<close> throws a TypeError; of a boolean,
  number, string or array it gives \<open>undefined\<close>; of an object its entry, if any.
\<close>

fun message_type :: "json \<Rightarrow> error + json option" where
  "message_type JNull = Inl TypeError"
| "message_type (JObj kv) = Inr (map_of kv ''type'')"
| "message_type _ = Inr None"

text \<open>
  The \<open>message\<close> handler. \<open>JSON_parse\<close> is the runtime's parser: \<open>None\<close> when it throws
  a SyntaxError. Every exception is caught inside the handler.
\<close>

definition on_message :: "(string \<Rightarrow> json option) \<Rightarrow> string \<Rightarrow> runtime \<Rightarrow> runtime" where
  "on_message JSON_parse data w =
     (case JSON_parse data of
        None \<Rightarrow> w
      | Some message \<Rightarrow>
          (case message_type message of
             Inl e \<Rightarrow> w
           | Inr t \<Rightarrow> if t = Some (JStr ''price_update'') then handlePriceUpdate message w else w))"

text \<open>The \<open>error\<close> handler: the hook, if any, and the rejection of the promise.\<close>

definition on_error :: "runtime \<Rightarrow> runtime" where
  "on_error w = (if onError (client w) then w\<lparr>hooks := hooks w @ [OnError]\<rparr> else w)"

definition attemptReconnect :: "runtime \<Rightarrow> runtime" where
  "attemptReconnect w =
     (if reconnectAttempts (client w) \<ge> maxReconnectAttempts then w
      else
        let w1 = w\<lparr>client := (client w)\<lparr>reconnectAttempts := reconnectAttempts (client w) + 1\<rparr>\<rparr>;
            delay = reconnectDelay * 2 ^ (reconnectAttempts (client w1) - 1)
        in w1\<lparr>timers := timers w1 @ [delay]\<rparr>)"

text \<open>The \<open>close\<close> handler: the hook, if any, then \<open>attemptReconnect\<close>.\<close>

definition on_close :: "runtime \<Rightarrow> runtime" where
  "on_close w =
     attemptReconnect (if onClose (client w) then w\<lparr>hooks := hooks w @ [OnClose]\<rparr> else w)"

text \<open>
  \<open>close()\<close>: \<open>ws.close()\<close> starts the closing handshake of the current socket (it is
  CLOSING until the runtime reports it closed), and the handle is dropped. The handlers
  stay attached to the socket.
\<close>

definition close :: "runtime \<Rightarrow> runtime" where
  "close w =
     (case ws (client w) of
        None \<Rightarrow> w
      | Some s \<Rightarrow>
          w\<lparr>client := (client w)\<lparr>ws := None\<rparr>,
            sockets := (if s < length (sockets w) \<and> sockets w ! s \<noteq> CLOSED
                        then (sockets w)[s := CLOSING] else sockets w)\<rparr>)"

definition isConnected :: "runtime \<Rightarrow> bool" where
  "isConnected w =
     (case ws (client w) of
        None \<Rightarrow> False
      | Some s \<Rightarrow> s < length (sockets w) \<and> sockets w ! s = OPEN)"

text \<open>
  What happens to a client: calls of its methods, events of one of its sockets (the
  runtime sets the socket's ready state, then runs the handler attached to it), and a
  pending timer firing.
\<close>

datatype event =
    Register feedId callback
  | Unregister feedId callback
  | Listen bool
  | Close
  | SocketOpen nat
  | SocketMessage nat string
  | SocketError nat
  | SocketClose nat
  | TimerFires

fun step :: "(string \<Rightarrow> json option) \<Rightarrow> runtime \<Rightarrow> event \<Rightarrow> runtime" where
  "step P w (Register f cb) = registerPriceFeedCallback f cb w"
| "step P w (Unregister f cb) = unregisterPriceFeedCallback f cb w"
| "step P w (Listen ok) = listenForPriceUpdates ok w"
| "step P w Close = close w"
| "step P w (SocketOpen s) =
     (if s < length (sockets w) \<and> sockets w ! s = CONNECTING
      then on_open (w\<lparr>sockets := (sockets w)[s := OPEN]\<rparr>) else w)"
| "step P w (SocketMessage s data) =
     (if s < length (sockets w) \<and> sockets w ! s \<in> {OPEN, CLOSING}
      then on_message P data w else w)"
| "step P w (SocketError s) =
     (if s < length (sockets w) \<and> sockets w ! s \<noteq> CLOSED then on_error w else w)"
| "step P w (SocketClose s) =
     (if s < length (sockets w) \<and> sockets w ! s \<noteq> CLOSED
      then on_close (w\<lparr>sockets := (sockets w)[s := CLOSED]\<rparr>) else w)"
| "step P w TimerFires =
     (if fired w < length (timers w)
      then listenForPriceUpdates True (w\<lparr>fired := fired w + 1\<rparr>) else w)"

definition run :: "(string \<Rightarrow> json option) \<Rightarrow> runtime \<Rightarrow> event list \<Rightarrow> runtime" where
  "run P w evs = foldl (step P) w evs"

subsection \<open>Notions of the specification of the FeedClient\<close>

text \<open>The backoff schedule: attempt \<open>k\<close>, counted from 1, waits \<open>reconnectDelay * 2 ^ (k - 1)\<close>.\<close>

definition backoff :: "nat \<Rightarrow> nat list" where
  "backoff n = map (\<lambda>k. reconnectDelay * 2 ^ (k - 1)) [1..<Suc n]"

text \<open>
  The number of sockets that have been reported closed. A close event of a socket marks
  it CLOSED, and nothing else does, so the growth of this number over a run is the
  number of close events the client handled.
\<close>

definition closedCount :: "runtime \<Rightarrow> nat" where
  "closedCount w = length (filter (\<lambda>s. s = CLOSED) (sockets w))"

fun is_open :: "event \<Rightarrow> bool" where
  "is_open (SocketOpen s) = True"
| "is_open _ = False"

text \<open>A run with no successful open.\<close>

fun no_open :: "event list \<Rightarrow> bool" where
  "no_open [] = True"
| "no_open (e # evs) = (\<not> is_open e \<and> no_open evs)"

text \<open>The observers registered for a feed.\<close>

definition observers :: "runtime \<Rightarrow> feedId \<Rightarrow> callback list" where
  "observers w f = (case map_of (callbacks (client w)) f of None \<Rightarrow> [] | Some cbs \<Rightarrow> cbs)"

text \<open>
  A valid price update, in the words of the specification: the data is JSON, an object
  of type \<open>price_update\<close> with a string \<open>id\<close> and with \<open>price\<close> and \<open>emaPrice\<close>, each an
  object with strings \<open>price\<close> and \<open>conf\<close> and numbers \<open>expo\<close> and \<open>publishTime\<close>.
\<close>

fun is_str :: "json option \<Rightarrow> bool" where
  "is_str (Some (JStr s)) = True"
| "is_str _ = False"

fun is_num :: "json option \<Rightarrow> bool" where
  "is_num (Some (JNum n)) = (n \<noteq> NaN)"
| "is_num _ = False"

fun price_fields :: "json option \<Rightarrow> bool" where
  "price_fields (Some (JObj kv)) =
     (is_str (map_of kv ''price'') \<and> is_str (map_of kv ''conf'')
      \<and> is_num (map_of kv ''expo'') \<and> is_num (map_of kv ''publishTime''))"
| "price_fields _ = False"

fun is_price_update :: "json option \<Rightarrow> bool" where
  "is_price_update (Some (JObj kv)) =
     (map_of kv ''type'' = Some (JStr ''price_update'')
      \<and> is_str (map_of kv ''id'')
      \<and> price_fields (map_of kv ''price'')
      \<and> price_fields (map_of kv ''emaPrice''))"
| "is_price_update _ = False"


section \<open>PairsCache (src/rpc/pairs\_cache.ts)\<close>

record Spread =
  min' :: number
  max' :: number

text \<open>
  \<open>groupIndex\<close> and \<open>feeIndex\<close> are \<open>Number(x)\<close> of the contract's unsigned integers; they
  are carried as naturals (such indexes are far below \<open>2 ^ 53\<close>, where \<open>Number\<close> is exact).
\<close>

record PairInfo =
  from' :: string
  to' :: string
  spread :: Spread
  groupIndex :: nat
  feeIndex :: nat
  maxLeverage :: number
  maxOpenInterestUsdc :: number

text \<open>
  What \<open>pairStorageContract.pairs(i)\<close> resolves to, as far as the code reads it: the
  unsigned integers are naturals, and a field the code reads with a fallback, or whose
  absence makes \<open>BigInt(undefined)\<close> throw, is optional.
\<close>

record PairStruct =
  p_from :: string
  p_to :: string
  p_spreadP :: "nat option"
  p_spread :: "(nat \<times> nat) option"
  p_groupIndex :: nat
  p_feeIndex :: nat
  p_maxLeverage :: "nat option"
  p_maxOpenInterestUsdc :: "nat option"

text \<open>
  The PairStorage contract: each read resolves to a value or is rejected. A read is a
  function of its arguments (the ledger does not change during one call of the SDK).
\<close>

record PairStorage =
  pairsCount :: "error + nat"
  pairs :: "nat \<Rightarrow> error + PairStruct"
  groupOI :: "nat \<Rightarrow> nat \<Rightarrow> error + nat"
  groupCollateral :: "nat \<Rightarrow> bool \<Rightarrow> error + nat"

text \<open>\<open>a || b || 0\<close> on optional bigints: \<open>undefined\<close> and \<open>0n\<close> are falsy.\<close>

definition or_else :: "nat option \<Rightarrow> nat option \<Rightarrow> int" where
  "or_else a b =
     (case a of
        Some x \<Rightarrow> if x \<noteq> 0 then int x else (case b of Some y \<Rightarrow> int y | None \<Rightarrow> 0)
      | None \<Rightarrow> (case b of Some y \<Rightarrow> int y | None \<Rightarrow> 0))"

text \<open>The body of the loop that builds a \<open>PairInfo\<close>; \<open>BigInt(undefined)\<close> throws a TypeError.\<close>

definition mkPairInfo :: "PairStruct \<Rightarrow> error + PairInfo" where
  "mkPairInfo pairData =
     (case p_maxLeverage pairData of
        None \<Rightarrow> Inl TypeError
      | Some lev \<Rightarrow>
          Inr \<lparr>from' = p_from pairData,
               to' = p_to pairData,
               spread = \<lparr>min' = fromBlockchain10
                                   (or_else (p_spreadP pairData) (map_option fst (p_spread pairData))),
                         max' = fromBlockchain10
                                   (or_else (p_spreadP pairData) (map_option snd (p_spread pairData)))\<rparr>,
               groupIndex = p_groupIndex pairData,
               feeIndex = p_feeIndex pairData,
               maxLeverage = fromBlockchain10 (int lev),
               maxOpenInterestUsdc =
                 fromBlockchain6 (or_else (p_maxOpenInterestUsdc pairData) None)\<rparr>)"

definition pairName :: "PairInfo \<Rightarrow> string" where
  "pairName pairInfo = from' pairInfo @ ''/'' @ to' pairInfo"

text \<open>The two private maps of the class, each \<open>undefined\<close> or a \<open>Map\<close> in insertion order.\<close>

record PairsCache =
  pairsCache :: "(nat \<times> PairInfo) list option"
  pairNameToIndexMap :: "(string \<times> nat) list option"

definition new_PairsCache :: PairsCache where
  "new_PairsCache = \<lparr>pairsCache = None, pairNameToIndexMap = None\<rparr>"

text \<open>
  The loop \<open>for (let i = 0; i < count; i++)\<close> over the indexes still to fetch, with the two
  local maps; the first rejected read or exception ends it.
\<close>

fun fetchPairs ::
  "PairStorage \<Rightarrow> nat list \<Rightarrow> (nat \<times> PairInfo) list \<Rightarrow> (string \<times> nat) list
   \<Rightarrow> error + (nat \<times> PairInfo) list \<times> (string \<times> nat) list" where
  "fetchPairs c [] ps ns = Inr (ps, ns)"
| "fetchPairs c (i # is) ps ns =
     (case pairs c i of
        Inl e \<Rightarrow> Inl e
      | Inr pairData \<Rightarrow>
          (case mkPairInfo pairData of
             Inl e \<Rightarrow> Inl e
           | Inr pairInfo \<Rightarrow>
               fetchPairs c is (map_set i pairInfo ps) (map_set (pairName pairInfo) i ns)))"

text \<open>
  \<open>getPairsInfo\<close>: the result of the promise and the cache afterwards. The two fields are
  assigned only after the loop, one after the other with no suspension point between.
\<close>

definition getPairsInfo ::
  "PairStorage \<Rightarrow> bool \<Rightarrow> PairsCache \<Rightarrow> (error + (nat \<times> PairInfo) list) \<times> PairsCache" where
  "getPairsInfo c forceRefresh s =
     (if pairsCache s \<noteq> None \<and> \<not> forceRefresh then (Inr (the (pairsCache s)), s)
      else
        (case pairsCount c of
           Inl e \<Rightarrow> (Inl e, s)
         | Inr count \<Rightarrow>
             (case fetchPairs c [0..<count] [] [] of
                Inl e \<Rightarrow> (Inl e, s)
              | Inr (ps, ns) \<Rightarrow>
                  (Inr ps, s\<lparr>pairsCache := Some ps, pairNameToIndexMap := Some ns\<rparr>))))"

definition getPairIndex ::
  "PairStorage \<Rightarrow> string \<Rightarrow> PairsCache \<Rightarrow> (error + nat option) \<times> PairsCache" where
  "getPairIndex c name s =
     (case pairNameToIndexMap s of
        Some ns \<Rightarrow> (Inr (map_of ns name), s)
      | None \<Rightarrow>
          (case getPairsInfo c False s of
             (Inl e, s') \<Rightarrow> (Inl e, s')
           | (Inr ps, s') \<Rightarrow>
               (Inr (case pairNameToIndexMap s' of None \<Rightarrow> None | Some ns \<Rightarrow> map_of ns name), s')))"

definition getPairName ::
  "PairStorage \<Rightarrow> nat \<Rightarrow> PairsCache \<Rightarrow> (error + string option) \<times> PairsCache" where
  "getPairName c pairIndex s =
     (case pairsCache s of
        Some ps \<Rightarrow> (Inr (map_option pairName (map_of ps pairIndex)), s)
      | None \<Rightarrow>
          (case getPairsInfo c False s of
             (Inl e, s') \<Rightarrow> (Inl e, s')
           | (Inr ps, s') \<Rightarrow>
               (Inr (case pairsCache s' of
                       None \<Rightarrow> None
                     | Some ps' \<Rightarrow> map_option pairName (map_of ps' pairIndex)), s')))"

text \<open>\<open>Array.from(set).sort((a, b) => a - b)\<close>: the distinct group indexes, ascending.\<close>

definition getGroupIndexes ::
  "PairStorage \<Rightarrow> PairsCache \<Rightarrow> (error + nat list) \<times> PairsCache" where
  "getGroupIndexes c s =
     (case getPairsInfo c False s of
        (Inl e, s') \<Rightarrow> (Inl e, s')
      | (Inr ps, s') \<Rightarrow> (Inr (sort (remdups (map (\<lambda>(i, p). groupIndex p) ps))), s'))"

definition getPairsInGroup ::
  "PairStorage \<Rightarrow> nat \<Rightarrow> PairsCache \<Rightarrow> (error + nat list) \<times> PairsCache" where
  "getPairsInGroup c g s =
     (case getPairsInfo c False s of
        (Inl e, s') \<Rightarrow> (Inl e, s')
      | (Inr ps, s') \<Rightarrow> (Inr (map fst (filter (\<lambda>(i, p). groupIndex p = g) ps)), s'))"

definition getPairByIndex ::
  "PairStorage \<Rightarrow> nat \<Rightarrow> PairsCache \<Rightarrow> (error + PairInfo option) \<times> PairsCache" where
  "getPairByIndex c pairIndex s =
     (case getPairsInfo c False s of
        (Inl e, s') \<Rightarrow> (Inl e, s')
      | (Inr ps, s') \<Rightarrow> (Inr (map_of ps pairIndex), s'))"

definition clearCache :: "PairsCache \<Rightarrow> PairsCache" where
  "clearCache s = s\<lparr>pairsCache := None, pairNameToIndexMap := None\<rparr>"

subsection \<open>\<open>getPairsInfo\<close> between its suspension points\<close>

text \<open>
  The same method between its suspension points. A call runs to its first \<open>await\<close>; each
  resumption runs to the next \<open>await\<close> or to the end. Between two steps any other code of
  the program may run and read the cache.
\<close>

datatype fetch_task =
    Called bool
  | AwaitCount
  | AwaitPair nat nat "(nat \<times> PairInfo) list" "(string \<times> nat) list"
  | Settled "error + (nat \<times> PairInfo) list"

text \<open>The test \<open>i < count\<close> of the loop; after the loop come the two assignments.\<close>

definition loop_head ::
  "nat \<Rightarrow> nat \<Rightarrow> (nat \<times> PairInfo) list \<Rightarrow> (string \<times> nat) list \<Rightarrow> PairsCache
   \<Rightarrow> fetch_task \<times> PairsCache" where
  "loop_head i count ps ns s =
     (if i < count then (AwaitPair i count ps ns, s)
      else (Settled (Inr ps), s\<lparr>pairsCache := Some ps, pairNameToIndexMap := Some ns\<rparr>))"

fun fetch_step :: "PairStorage \<Rightarrow> fetch_task \<times> PairsCache \<Rightarrow> fetch_task \<times> PairsCache" where
  "fetch_step c (Called forceRefresh, s) =
     (if pairsCache s \<noteq> None \<and> \<not> forceRefresh then (Settled (Inr (the (pairsCache s))), s)
      else (AwaitCount, s))"
| "fetch_step c (AwaitCount, s) =
     (case pairsCount c of
        Inl e \<Rightarrow> (Settled (Inl e), s)
      | Inr count \<Rightarrow> loop_head 0 count [] [] s)"
| "fetch_step c (AwaitPair i count ps ns, s) =
     (case pairs c i of
        Inl e \<Rightarrow> (Settled (Inl e), s)
      | Inr pairData \<Rightarrow>
          (case mkPairInfo pairData of
             Inl e \<Rightarrow> (Settled (Inl e), s)
           | Inr info \<Rightarrow>
               loop_head (i + 1) count (map_set i info ps) (map_set (pairName info) i ns) s))"
| "fetch_step c (Settled r, s) = (Settled r, s)"

fun settled :: "fetch_task \<Rightarrow> bool" where
  "settled (Settled r) = True"
| "settled t = False"

text \<open>How the method ends after the loop \<open>fetchPairs\<close> has given \<open>r\<close>.\<close>

definition settle ::
  "error + (nat \<times> PairInfo) list \<times> (string \<times> nat) list \<Rightarrow> PairsCache
   \<Rightarrow> fetch_task \<times> PairsCache" where
  "settle r s =
     (case r of
        Inl e \<Rightarrow> (Settled (Inl e), s)
      | Inr (ps, ns) \<Rightarrow>
          (Settled (Inr ps), s\<lparr>pairsCache := Some ps, pairNameToIndexMap := Some ns\<rparr>))"

subsection \<open>Notions of the specification of the PairsCache\<close>

text \<open>
  The first failure of a population, if any: the rejection of \<open>pairsCount\<close>, or else, at
  the least index where there is one, the rejection of the read of that pair or the
  exception of its conversion.
\<close>

definition failure_at :: "PairStorage \<Rightarrow> nat \<Rightarrow> error list" where
  "failure_at c i =
     (case pairs c i of
        Inl e \<Rightarrow> [e]
      | Inr pairData \<Rightarrow> (case mkPairInfo pairData of Inl e \<Rightarrow> [e] | Inr pairInfo \<Rightarrow> []))"

definition first_failure :: "PairStorage \<Rightarrow> error option" where
  "first_failure c =
     (case pairsCount c of
        Inl e \<Rightarrow> Some e
      | Inr count \<Rightarrow>
          (case concat (map (failure_at c) [0..<count]) of [] \<Rightarrow> None | e # es \<Rightarrow> Some e))"

text \<open>The name map that the loop builds from the pairs \<open>xs\<close> it fetched, in order.\<close>

definition names_of :: "(nat \<times> PairInfo) list \<Rightarrow> (string \<times> nat) list \<Rightarrow> (string \<times> nat) list" where
  "names_of xs ns = fold (\<lambda>(i, p). map_set (pairName p) i) xs ns"

section \<open>CategoryParametersRPC (src/rpc/category\_parameters.ts)\<close>

record OpenInterest =
  oi_long :: number
  oi_short :: number
  oi_max :: number

record Utilization =
  utilizationLong :: number
  utilizationShort :: number

record Skew =
  skew :: number

text \<open>
  \<open>getOILimits\<close>: one read per group; a group whose read is rejected is logged and left
  out of the map.
\<close>

fun limits_loop ::
  "PairStorage \<Rightarrow> nat list \<Rightarrow> (nat \<times> OpenInterest) list \<Rightarrow> (nat \<times> OpenInterest) list" where
  "limits_loop c [] limits = limits"
| "limits_loop c (g # gs) limits =
     (case groupCollateral c g True of
        Inl e \<Rightarrow> limits_loop c gs limits
      | Inr maxOI \<Rightarrow>
          limits_loop c gs
            (map_set g
               \<lparr>oi_long = fromBlockchain6 (int maxOI), oi_short = fromBlockchain6 (int maxOI),
                oi_max = fromBlockchain6 (int maxOI)\<rparr> limits))"

definition getOILimits ::
  "PairStorage \<Rightarrow> PairsCache \<Rightarrow> (error + (nat \<times> OpenInterest) list) \<times> PairsCache" where
  "getOILimits c s =
     (case getGroupIndexes c s of
        (Inl e, s') \<Rightarrow> (Inl e, s')
      | (Inr groupIndexes, s') \<Rightarrow> (Inr (limits_loop c groupIndexes []), s'))"

text \<open>
  The loop of \<open>getOI\<close>: per group the two reads of the open interest and a call of
  \<open>getOILimits\<close>, all inside one \<open>try\<close>; a failure of any of them leaves the group out.
  \<open>limits.get(groupIndex)?.max || 0\<close> is \<open>0\<close> for a group without limits.
\<close>

fun oi_loop ::
  "PairStorage \<Rightarrow> nat list \<Rightarrow> (nat \<times> OpenInterest) list \<Rightarrow> PairsCache
   \<Rightarrow> (nat \<times> OpenInterest) list \<times> PairsCache" where
  "oi_loop c [] oi s = (oi, s)"
| "oi_loop c (g # gs) oi s =
     (case groupOI c g 0 of
        Inl e \<Rightarrow> oi_loop c gs oi s
      | Inr groupOILong \<Rightarrow>
          (case groupOI c g 1 of
             Inl e \<Rightarrow> oi_loop c gs oi s
           | Inr groupOIShort \<Rightarrow>
               (case getOILimits c s of
                  (Inl e, s') \<Rightarrow> oi_loop c gs oi s'
                | (Inr limits, s') \<Rightarrow>
                    oi_loop c gs
                      (map_set g
                         \<lparr>oi_long = fromBlockchain6 (int groupOILong),
                          oi_short = fromBlockchain6 (int groupOIShort),
                          oi_max = (case map_of limits g of
                                      None \<Rightarrow> Fin 0
                                    | Some l \<Rightarrow> if falsy (oi_max l) then Fin 0 else oi_max l)\<rparr>
                         oi) s')))"

definition getOI ::
  "PairStorage \<Rightarrow> PairsCache \<Rightarrow> (error + (nat \<times> OpenInterest) list) \<times> PairsCache" where
  "getOI c s =
     (case getGroupIndexes c s of
        (Inl e, s') \<Rightarrow> (Inl e, s')
      | (Inr groupIndexes, s') \<Rightarrow>
          (case oi_loop c groupIndexes [] s' of (oi, s'') \<Rightarrow> (Inr oi, s'')))"

definition utilization_of :: "OpenInterest \<Rightarrow> Utilization" where
  "utilization_of oiData =
     \<lparr>utilizationLong =
        (if fgt (oi_max oiData) (Fin 0)
         then fmul (fdiv (oi_long oiData) (oi_max oiData)) (Fin 100) else Fin 0),
      utilizationShort =
        (if fgt (oi_max oiData) (Fin 0)
         then fmul (fdiv (oi_short oiData) (oi_max oiData)) (Fin 100) else Fin 0)\<rparr>"

definition getUtilization ::
  "PairStorage \<Rightarrow> PairsCache \<Rightarrow> (error + (nat \<times> Utilization) list) \<times> PairsCache" where
  "getUtilization c s =
     (case getOI c s of
        (Inl e, s') \<Rightarrow> (Inl e, s')
      | (Inr oi, s') \<Rightarrow>
          (Inr (fold (\<lambda>(g, oiData). map_set g (utilization_of oiData)) oi []),
           s'))"

definition skew_of :: "OpenInterest \<Rightarrow> Skew" where
  "skew_of oiData =
     (let total = fadd (oi_long oiData) (oi_short oiData)
      in \<lparr>skew = (if fgt total (Fin 0) then fdiv (oi_long oiData) total else Fin (1 / 2))\<rparr>)"

definition getCategorySkew ::
  "PairStorage \<Rightarrow> PairsCache \<Rightarrow> (error + (nat \<times> Skew) list) \<times> PairsCache" where
  "getCategorySkew c s =
     (case getOI c s of
        (Inl e, s') \<Rightarrow> (Inl e, s')
      | (Inr oi, s') \<Rightarrow>
          (Inr (fold (\<lambda>(g, oiData). map_set g (skew_of oiData)) oi []), s'))"


subsection \<open>Notions of the specification of the category aggregator\<close>



section \<open>SnapshotRPC (src/rpc/snapshot.ts)\<close>

record Fee =
  feeP :: number

record Depth =
  onePercentDepthAboveUsdc :: number
  onePercentDepthBelowUsdc :: number

record PairData =
  pairInfo :: PairInfo
  pd_openInterest :: "OpenInterest option"
  pd_utilization :: "Utilization option"
  pd_skew :: "Skew option"
  pd_fee :: "Fee option"
  pd_depth :: "Depth option"
  pd_spread :: "number option"

text \<open>The maps \<open>pairs\<close> and \<open>groups\<close> are objects keyed by strings, in insertion order.\<close>

record Group =
  g_groupIndex :: nat
  g_pairs :: "(string \<times> PairData) list"
  g_openInterest :: "OpenInterest option"
  g_utilization :: "Utilization option"
  g_skew :: "Skew option"

record Snapshot =
  groups :: "(string \<times> Group) list"

text \<open>An entry of the map that \<open>getOnePercentDepth\<close> resolves to.\<close>

record DepthEntry =
  above :: number
  below :: number

text \<open>
  The classes \<open>AssetParametersRPC\<close>, \<open>FeeParametersRPC\<close> and \<open>BlendedRPC\<close> are not part of
  the sources. Their seven calls in \<open>getSnapshot\<close> are taken as given: each is rejected or
  resolves to a map from pair index to the metric, of which \<open>getSnapshot\<close> only uses \<open>get\<close>.
  A pair whose metric the aggregator could not fetch has no entry in the map.
\<close>

record AggregatorReads =
  assetOI :: "error + (nat \<rightharpoonup> OpenInterest)"
  assetUtilization :: "error + (nat \<rightharpoonup> Utilization)"
  assetSkew :: "error + (nat \<rightharpoonup> Skew)"
  blendedUtilization :: "error + (nat \<rightharpoonup> Utilization)"
  blendedSkew :: "error + (nat \<rightharpoonup> Skew)"
  fees :: "error + (nat \<rightharpoonup> Fee)"
  depth :: "error + (nat \<rightharpoonup> DepthEntry)"

text \<open>The decimal digits of a number, as the template literal prints a group index.\<close>

definition digit :: "nat \<Rightarrow> char" where
  "digit d = ''0123456789'' ! d"

fun show_nat :: "nat \<Rightarrow> string" where
  "show_nat n = (if n < 10 then [digit n] else show_nat (n div 10) @ [digit (n mod 10)])"

definition group_key :: "nat \<Rightarrow> string" where
  "group_key g = ''group_'' @ show_nat g"

text \<open>\<open>depth.get(pairIndex)?.above || 0\<close>, and the same for \<open>below\<close>.\<close>

definition depth_or_zero :: "(DepthEntry \<Rightarrow> number) \<Rightarrow> DepthEntry option \<Rightarrow> number" where
  "depth_or_zero field d =
     (case d of None \<Rightarrow> Fin 0 | Some x \<Rightarrow> if falsy (field x) then Fin 0 else field x)"

text \<open>The object built for one pair of a group.\<close>

definition mkPairData ::
  "(nat \<rightharpoonup> OpenInterest) \<Rightarrow> (nat \<rightharpoonup> Utilization) \<Rightarrow> (nat \<rightharpoonup> Skew) \<Rightarrow> (nat \<rightharpoonup> Fee)
   \<Rightarrow> (nat \<rightharpoonup> DepthEntry) \<Rightarrow> nat \<Rightarrow> PairInfo \<Rightarrow> PairData" where
  "mkPairData aOI bU bS fs dp pairIndex info =
     \<lparr>pairInfo = info,
      pd_openInterest = aOI pairIndex,
      pd_utilization = bU pairIndex,
      pd_skew = bS pairIndex,
      pd_fee = fs pairIndex,
      pd_depth = Some \<lparr>onePercentDepthAboveUsdc = depth_or_zero above (dp pairIndex),
                        onePercentDepthBelowUsdc = depth_or_zero below (dp pairIndex)\<rparr>,
      pd_spread = Some (min' (spread info))\<rparr>"

text \<open>The inner loop over the pairs of a group: a pair that is not in \<open>pairs\<close> is skipped.\<close>

fun pairs_loop ::
  "(nat \<times> PairInfo) list \<Rightarrow> (nat \<Rightarrow> PairInfo \<Rightarrow> PairData) \<Rightarrow> nat list
   \<Rightarrow> (string \<times> PairData) list \<Rightarrow> (string \<times> PairData) list" where
  "pairs_loop ps mk [] acc = acc"
| "pairs_loop ps mk (pairIndex # rest) acc =
     (case map_of ps pairIndex of
        None \<Rightarrow> pairs_loop ps mk rest acc
      | Some info \<Rightarrow> pairs_loop ps mk rest (map_set (pairName info) (mk pairIndex info) acc))"

text \<open>The object built for one group, from the indexes of its pairs.\<close>

definition mkGroup ::
  "(nat \<times> PairInfo) list \<Rightarrow> (nat \<Rightarrow> PairInfo \<Rightarrow> PairData)
   \<Rightarrow> (nat \<times> OpenInterest) list \<Rightarrow> (nat \<times> Utilization) list \<Rightarrow> (nat \<times> Skew) list
   \<Rightarrow> nat \<Rightarrow> nat list \<Rightarrow> Group" where
  "mkGroup ps mk cOI cU cS g pairsInGroup =
     \<lparr>g_groupIndex = g,
      g_pairs = pairs_loop ps mk pairsInGroup [],
      g_openInterest = map_of cOI g,
      g_utilization = map_of cU g,
      g_skew = map_of cS g\<rparr>"

text \<open>The outer loop over the group indexes; \<open>getPairsInGroup\<close> is awaited for each group.\<close>

fun groups_loop ::
  "PairStorage \<Rightarrow> (nat \<Rightarrow> nat list \<Rightarrow> Group) \<Rightarrow> nat list \<Rightarrow> (string \<times> Group) list
   \<Rightarrow> PairsCache \<Rightarrow> (error + (string \<times> Group) list) \<times> PairsCache" where
  "groups_loop c mkG [] acc s = (Inr acc, s)"
| "groups_loop c mkG (g # gs) acc s =
     (case getPairsInGroup c g s of
        (Inl e, s') \<Rightarrow> (Inl e, s')
      | (Inr pairsInGroup, s') \<Rightarrow>
          groups_loop c mkG gs (map_set (group_key g) (mkG g pairsInGroup) acc) s')"

text \<open>Awaiting a result: a rejection is passed on, a value is handed to what follows.\<close>

definition and_then :: "error + 'a \<Rightarrow> ('a \<Rightarrow> error + 'b) \<Rightarrow> error + 'b" where
  "and_then r f = (case r of Inl e \<Rightarrow> Inl e | Inr x \<Rightarrow> f x)"

text \<open>
  \<open>getSnapshot\<close>. The twelve reads of \<open>Promise.all\<close> are all started; the five of the
  classes in the sources run here in the order of the array, on the cache. If any of the
  twelve is rejected, so is \<open>getSnapshot\<close> (with the rejection that comes first in time;
  the model takes the first of the array). Otherwise the snapshot is assembled.
\<close>

definition getSnapshot ::
  "PairStorage \<Rightarrow> AggregatorReads \<Rightarrow> PairsCache \<Rightarrow> (error + Snapshot) \<times> PairsCache" where
  "getSnapshot c a s0 =
     (let (r1, s1) = getPairsInfo c False s0;
          (r2, s2) = getGroupIndexes c s1;
          (r4, s4) = getOI c s2;
          (r6, s6) = getUtilization c s4;
          (r8, s8) = getCategorySkew c s6;
          assemble =
            and_then r1 (\<lambda>ps.
            and_then r2 (\<lambda>groupIndexes.
            and_then (assetOI a) (\<lambda>aOI.
            and_then r4 (\<lambda>cOI.
            and_then (assetUtilization a) (\<lambda>aU.
            and_then r6 (\<lambda>cU.
            and_then (assetSkew a) (\<lambda>aS.
            and_then r8 (\<lambda>cS.
            and_then (blendedUtilization a) (\<lambda>bU.
            and_then (blendedSkew a) (\<lambda>bS.
            and_then (fees a) (\<lambda>fs.
            and_then (depth a) (\<lambda>dp.
              Inr (groups_loop c (mkGroup ps (mkPairData aOI bU bS fs dp) cOI cU cS)
                     groupIndexes [])))))))))))))
      in case assemble of
           Inl e \<Rightarrow> (Inl e, s8)
         | Inr loop \<Rightarrow>
             (case loop s8 of
                (Inl e, s9) \<Rightarrow> (Inl e, s9)
              | (Inr gs, s9) \<Rightarrow> (Inr \<lparr>groups = gs\<rparr>, s9)))"

definition getGroupSnapshot ::
  "PairStorage \<Rightarrow> AggregatorReads \<Rightarrow> nat \<Rightarrow> PairsCache \<Rightarrow> (error + Group option) \<times> PairsCache" where
  "getGroupSnapshot c a g s =
     (case getSnapshot c a s of
        (Inl e, s') \<Rightarrow> (Inl e, s')
      | (Inr snapshot, s') \<Rightarrow> (Inr (map_of (groups snapshot) (group_key g)), s'))"

subsection \<open>Notions of the specification of the snapshot builder\<close>





section \<open>TradeRPC (src/rpc/trade.ts)\<close>

record TradeInput =
  pair :: string
  isLong :: bool
  collateralInTrade :: number
  leverage :: number
  openPrice :: number
  tp :: number
  sl :: number
  referrer :: string
  orderType :: string
  maxSlippageP :: number

text \<open>The struct passed to the contract's \<open>openTrade\<close>.\<close>

record Trade =
  t_trader :: string
  t_pairIndex :: nat
  t_index :: nat
  t_initialPosToken :: nat
  t_positionSizeUsdc :: int
  t_openPrice :: int
  t_buy :: bool
  t_leverage :: int
  t_tp :: int
  t_sl :: int

record TransactionRequest =
  tx_to :: string
  tx_data :: string
  tx_value :: nat

text \<open>
  What a property read \<open>orderTypes[orderType]\<close> can give: a number of the table, or a
  member that the object literal inherits from \<open>Object.prototype\<close> (a function, or for
  \<open>__proto__\<close> the prototype object), named here by its key.
\<close>

datatype order_value = OrderNum nat | Inherited string

text \<open>
  The Trading contract: its two reads, and the encoder of the call \<open>openTrade\<close> of the
  contract's interface (the ABI is not part of the sources).
\<close>

record TradingContract =
  getExecutionFee :: "error + nat"
  getAddress :: "error + string"
  encode_openTrade :: "Trade \<Rightarrow> order_value \<Rightarrow> int \<Rightarrow> string \<Rightarrow> error + string"

definition orderTypes :: "(string \<times> nat) list" where
  "orderTypes = [(''market'', 0), (''limit'', 1), (''stop_limit'', 2), (''market_zero_fee'', 3)]"

text \<open>The keys of \<open>Object.prototype\<close>, the prototype of every object literal.\<close>

definition Object_prototype :: "string list" where
  "Object_prototype =
     [''constructor'', ''__defineGetter__'', ''__defineSetter__'', ''hasOwnProperty'',
      ''__lookupGetter__'', ''__lookupSetter__'', ''isPrototypeOf'', ''propertyIsEnumerable'',
      ''toString'', ''valueOf'', ''__proto__'', ''toLocaleString'']"

text \<open>
  \<open>orderTypes[orderType] || 0\<close>: an own key gives its number (and \<open>0 || 0\<close> is \<open>0\<close>), an
  inherited key gives the inherited member, which is truthy, and any other key gives
  \<open>undefined\<close>, hence \<open>0\<close>.
\<close>

definition getOrderTypeValue :: "string \<Rightarrow> order_value" where
  "getOrderTypeValue orderType' =
     (case map_of orderTypes orderType' of
        Some n \<Rightarrow> (if n \<noteq> 0 then OrderNum n else OrderNum 0)
      | None \<Rightarrow> if orderType' \<in> set Object_prototype then Inherited orderType' else OrderNum 0)"

text \<open>\<open>getTradeExecutionFee\<close>: a rejected read is caught and gives \<open>0n\<close>.\<close>

definition getTradeExecutionFee :: "TradingContract \<Rightarrow> nat" where
  "getTradeExecutionFee t = (case getExecutionFee t of Inl e \<Rightarrow> 0 | Inr fee \<Rightarrow> fee)"

definition zero_address :: string where
  "zero_address = ''0x0000000000000000000000000000000000000000''"

definition buildTradeOpenTx ::
  "PairStorage \<Rightarrow> TradingContract \<Rightarrow> TradeInput \<Rightarrow> PairsCache
   \<Rightarrow> (error + TransactionRequest) \<times> PairsCache" where
  "buildTradeOpenTx c t tradeInput s =
     (case getPairIndex c (pair tradeInput) s of
        (Inl e, s') \<Rightarrow> (Inl e, s')
      | (Inr None, s') \<Rightarrow> (Inl (PairNotFound (pair tradeInput)), s')
      | (Inr (Some pairIndex), s') \<Rightarrow>
          (case toBlockchain6 (fmul (collateralInTrade tradeInput) (leverage tradeInput)) of
             Inl e \<Rightarrow> (Inl e, s') | Inr posSize \<Rightarrow>
           case toBlockchain10 (openPrice tradeInput) of Inl e \<Rightarrow> (Inl e, s') | Inr opn \<Rightarrow>
           case toBlockchain10 (leverage tradeInput) of Inl e \<Rightarrow> (Inl e, s') | Inr lev \<Rightarrow>
           case toBlockchain10 (tp tradeInput) of Inl e \<Rightarrow> (Inl e, s') | Inr tp' \<Rightarrow>
           case toBlockchain10 (sl tradeInput) of Inl e \<Rightarrow> (Inl e, s') | Inr sl' \<Rightarrow>
             (let trade = \<lparr>t_trader = [], t_pairIndex = pairIndex, t_index = 0,
                           t_initialPosToken = 0, t_positionSizeUsdc = posSize, t_openPrice = opn,
                           t_buy = isLong tradeInput, t_leverage = lev, t_tp = tp', t_sl = sl'\<rparr>;
                  orderType' = getOrderTypeValue (orderType tradeInput)
              in case toBlockchain10 (maxSlippageP tradeInput) of
                   Inl e \<Rightarrow> (Inl e, s')
                 | Inr slippageP \<Rightarrow>
                     (let executionFee = getTradeExecutionFee t
                      in case getAddress t of
                           Inl e \<Rightarrow> (Inl e, s')
                         | Inr addr \<Rightarrow>
                             (case encode_openTrade t trade orderType' slippageP
                                     (if referrer tradeInput = [] then zero_address
                                      else referrer tradeInput) of
                                Inl e \<Rightarrow> (Inl e, s')
                              | Inr payload \<Rightarrow>
                                  (Inr \<lparr>tx_to = addr, tx_data = payload,
                                        tx_value = executionFee\<rparr>, s'))))))"

subsection \<open>Example ledgers\<close>

definition btc_usd :: PairStruct where
  "btc_usd = \<lparr>p_from = ''BTC'', p_to = ''USD'', p_spreadP = Some 4000000, p_spread = None,
     p_groupIndex = 0, p_feeIndex = 0, p_maxLeverage = Some 1000000000000,
     p_maxOpenInterestUsdc = Some 5000000000000\<rparr>"

definition eth_usd :: PairStruct where
  "eth_usd = \<lparr>p_from = ''ETH'', p_to = ''USD'', p_spreadP = None, p_spread = Some (4000000, 6000000),
     p_groupIndex = 0, p_feeIndex = 0, p_maxLeverage = Some 500000000000,
     p_maxOpenInterestUsdc = None\<rparr>"

definition eur_usd :: PairStruct where
  "eur_usd = \<lparr>p_from = ''EUR'', p_to = ''USD'', p_spreadP = Some 1000000, p_spread = None,
     p_groupIndex = 1, p_feeIndex = 1, p_maxLeverage = Some 5000000000000,
     p_maxOpenInterestUsdc = Some 9000000000000\<rparr>"

text \<open>A ledger with three pairs in two groups, and one whose third pair cannot be read.\<close>

definition ledger :: PairStorage where
  "ledger = \<lparr>pairsCount = Inr 3,
     pairs = (\<lambda>i. if i = 0 then Inr btc_usd else if i = 1 then Inr eth_usd
                   else if i = 2 then Inr eur_usd else Inl (RemoteError ''no such pair'')),
     groupOI = (\<lambda>g side. if g = 0 then (if side = 0 then Inr 250000 else Inr 750000)
                          else Inl (RemoteError ''timeout'')),
     groupCollateral = (\<lambda>g isMax. if g = 0 then Inr 2000000 else Inr 0)\<rparr>"

definition broken_ledger :: PairStorage where
  "broken_ledger = ledger\<lparr>pairs :=
     (\<lambda>i. if i = 2 then Inl (RemoteError ''timeout'') else pairs ledger i)\<rparr>"



section \<open>Properties of the FeedClient\<close>

lemma closed_update:
  "i < length xs \<Longrightarrow> xs ! i \<noteq> CLOSED \<Longrightarrow>
   length (filter (\<lambda>s. s = CLOSED) (xs[i := y])) =
     length (filter (\<lambda>s. s = CLOSED) xs) + (if y = CLOSED then 1 else 0)"
proof (induction xs arbitrary: i)
  case Nil
  then show ?case by simp
next
  case (Cons x xs)
  then show ?case by (cases i) auto
qed

lemma attemptReconnect_effect:
  "attemptReconnect w =
     w\<lparr>client := (client w)\<lparr>reconnectAttempts :=
           (if reconnectAttempts (client w) < maxReconnectAttempts
            then Suc (reconnectAttempts (client w)) else reconnectAttempts (client w))\<rparr>,
       timers := timers w @
           (if reconnectAttempts (client w) < maxReconnectAttempts
            then [reconnectDelay * 2 ^ reconnectAttempts (client w)] else [])\<rparr>"
  by (simp add: attemptReconnect_def Let_def)

lemma on_message_fields:
  "sockets (on_message P d w) = sockets w \<and> client (on_message P d w) = client w
   \<and> timers (on_message P d w) = timers w"
  by (simp add: on_message_def handlePriceUpdate_def split: option.splits sum.splits)

lemma step_not_open:
  assumes "\<not> is_open e"
  shows "\<exists>b. closedCount (step P w e) = closedCount w + (if b then 1 else 0)
          \<and> reconnectAttempts (client (step P w e)) =
              (if b \<and> reconnectAttempts (client w) < maxReconnectAttempts
               then Suc (reconnectAttempts (client w)) else reconnectAttempts (client w))
          \<and> timers (step P w e) = timers w @
              (if b \<and> reconnectAttempts (client w) < maxReconnectAttempts
               then [reconnectDelay * 2 ^ reconnectAttempts (client w)] else [])"
proof (cases e)
  case (Register f cb)
  then show ?thesis
    by (intro exI[of _ False]) (simp add: registerPriceFeedCallback_def Let_def closedCount_def)
next
  case (Unregister f cb)
  then show ?thesis
    by (intro exI[of _ False])
       (simp add: unregisterPriceFeedCallback_def closedCount_def split: option.splits)
next
  case (Listen ok)
  then show ?thesis
    by (intro exI[of _ False]) (simp add: listenForPriceUpdates_def closedCount_def)
next
  case Close
  then show ?thesis
    by (intro exI[of _ False]) (simp add: close_def closedCount_def closed_update split: option.splits)
next
  case (SocketOpen s)
  with assms show ?thesis by simp
next
  case (SocketMessage s d)
  then show ?thesis
    by (intro exI[of _ False]) (simp add: on_message_fields closedCount_def)
next
  case (SocketError s)
  then show ?thesis
    by (intro exI[of _ False]) (simp add: on_error_def closedCount_def)
next
  case (SocketClose s)
  show ?thesis
  proof (cases "s < length (sockets w) \<and> sockets w ! s \<noteq> CLOSED")
    case True
    with SocketClose show ?thesis
      by (intro exI[of _ True])
         (simp add: on_close_def attemptReconnect_effect closedCount_def closed_update)
  next
    case False
    with SocketClose show ?thesis
      by (intro exI[of _ False]) auto
  qed
next
  case TimerFires
  then show ?thesis
    by (intro exI[of _ False]) (simp add: listenForPriceUpdates_def closedCount_def)
qed

lemma run_Cons: "run P w (e # evs) = run P (step P w e) evs"
  by (simp add: run_def)

lemma upt_split_first: "a < n \<Longrightarrow> [Suc a..<Suc n] = Suc a # [Suc (Suc a)..<Suc n]"
  by (simp add: upt_conv_Cons)

lemma run_no_open:
  assumes "no_open evs" and "reconnectAttempts (client w) \<le> maxReconnectAttempts"
  shows "closedCount w \<le> closedCount (run P w evs)
       \<and> reconnectAttempts (client (run P w evs)) =
           min (reconnectAttempts (client w) + (closedCount (run P w evs) - closedCount w))
               maxReconnectAttempts
       \<and> timers (run P w evs) = timers w @
           map (\<lambda>k. reconnectDelay * 2 ^ (k - 1))
             [Suc (reconnectAttempts (client w))..<
              Suc (min (reconnectAttempts (client w) + (closedCount (run P w evs) - closedCount w))
                     maxReconnectAttempts)]"
  using assms
proof (induction evs arbitrary: w)
  case Nil
  then show ?case by (simp add: run_def)
next
  case (Cons e evs)
  let ?w1 = "step P w e"
  let ?a = "reconnectAttempts (client w)"
  from Cons.prems have ne: "\<not> is_open e" and rest: "no_open evs" by simp_all
  from step_not_open[OF ne, of P w] obtain b where
    c1: "closedCount ?w1 = closedCount w + (if b then 1 else 0)" and
    a1: "reconnectAttempts (client ?w1) =
           (if b \<and> ?a < maxReconnectAttempts then Suc ?a else ?a)" and
    t1: "timers ?w1 = timers w @
           (if b \<and> ?a < maxReconnectAttempts then [reconnectDelay * 2 ^ ?a] else [])"
    by blast
  from a1 Cons.prems(2) have le1: "reconnectAttempts (client ?w1) \<le> maxReconnectAttempts"
    by (simp split: if_splits)
  note IH = Cons.IH[OF rest le1]
  let ?w' = "run P ?w1 evs"
  have r: "run P w (e # evs) = ?w'" by (rule run_Cons)
  from IH have mono: "closedCount ?w1 \<le> closedCount ?w'" by simp
  let ?f = "\<lambda>k. reconnectDelay * 2 ^ (k - 1)"
  let ?m = "min (?a + (closedCount ?w' - closedCount w)) maxReconnectAttempts"
  have goal: "closedCount w \<le> closedCount ?w' \<and> reconnectAttempts (client ?w') = ?m
              \<and> timers ?w' = timers w @ map ?f [Suc ?a..<Suc ?m]"
  proof (cases "b \<and> ?a < maxReconnectAttempts")
    case True
    then have b by simp
    from True have lt: "?a < maxReconnectAttempts" by simp
    have a1': "reconnectAttempts (client ?w1) = Suc ?a" using a1 True by simp
    have sum: "Suc ?a + (closedCount ?w' - closedCount ?w1) = ?a + (closedCount ?w' - closedCount w)"
      using c1 mono \<open>b\<close> by simp
    have t1': "timers ?w1 = timers w @ [?f (Suc ?a)]" using t1 True by simp
    have am: "?a < ?m" using lt c1 mono \<open>b\<close> by simp
    note IH' = IH[unfolded a1' sum]
    from IH' have A: "reconnectAttempts (client ?w') = ?m" by blast
    from IH' have "timers ?w' = timers ?w1 @ map ?f [Suc (Suc ?a)..<Suc ?m]" by blast
    also have "\<dots> = timers w @ map ?f (Suc ?a # [Suc (Suc ?a)..<Suc ?m])"
      unfolding t1' by simp
    also have "Suc ?a # [Suc (Suc ?a)..<Suc ?m] = [Suc ?a..<Suc ?m]"
      using upt_split_first[OF am] by simp
    finally have T: "timers ?w' = timers w @ map ?f [Suc ?a..<Suc ?m]" .
    have C: "closedCount w \<le> closedCount ?w'" using c1 mono by simp
    from C A T show ?thesis by blast
  next
    case False
    have a1': "reconnectAttempts (client ?w1) = ?a" using a1 False by simp
    have t1': "timers ?w1 = timers w" using t1 False by simp
    have C: "closedCount w \<le> closedCount ?w'" using c1 mono by (simp split: if_splits)
    have m_eq: "min (?a + (closedCount ?w' - closedCount ?w1)) maxReconnectAttempts = ?m"
    proof (cases b)
      case True
      with False Cons.prems(2) have "?a = maxReconnectAttempts" by simp
      then show ?thesis by simp
    next
      case False
      then have "closedCount ?w1 = closedCount w" using c1 by simp
      then show ?thesis by simp
    qed
    note IH' = IH[unfolded a1' t1' m_eq]
    from IH' C show ?thesis by blast
  qed
  show ?case unfolding r by (rule goal)
qed



text \<open>
  C8. From a counter of zero, over any run without a successful open in which the client
  handles \<open>n\<close> close events, the timers set are exactly the first \<open>min n 5\<close> delays of the
  doubling schedule \<open>reconnectDelay * 2 ^ (k - 1)\<close>, one per attempt, and the counter is
  \<open>min n 5\<close>: \<open>n\<close> attempts below the cap, none beyond it. A successful open puts the
  counter back to zero.
\<close>

theorem reconnect_backoff_schedule:
  assumes "reconnectAttempts (client w) = 0" and "no_open evs"
    and "n = closedCount (run P w evs) - closedCount w"
  shows "timers (run P w evs) = timers w @ backoff (min n maxReconnectAttempts)
       \<and> reconnectAttempts (client (run P w evs)) = min n maxReconnectAttempts
       \<and> length (backoff (min n maxReconnectAttempts)) = min n maxReconnectAttempts
       \<and> (\<forall>k < min n maxReconnectAttempts.
             backoff (min n maxReconnectAttempts) ! k = reconnectDelay * 2 ^ k)
       \<and> reconnectAttempts (client (on_open (run P w evs))) = 0"
proof -
  have "reconnectAttempts (client (on_open v)) = 0" for v
    by (simp add: on_open_def Let_def subscribeToPriceFeeds_def split: option.splits)
  moreover have "backoff m ! k = reconnectDelay * 2 ^ k" if "k < m" for m k
  proof -
    from that have "[1..<Suc m] ! k = 1 + k" by (metis nth_upt Suc_eq_plus1_left add.commute less_diff_conv plus_1_eq_Suc diff_Suc_1)
    with that show ?thesis by (simp add: backoff_def del: upt_Suc)
  qed
  ultimately show ?thesis
    using run_no_open[of evs w P] assms by (simp add: backoff_def del: upt_Suc)
qed

theorem reconnect_backoff_schedule_witness:
  "reconnectAttempts (client (new_FeedClient False False)) = 0
   \<and> no_open [Listen True, SocketClose 0, TimerFires, SocketClose 1, TimerFires, SocketClose 2]
   \<and> timers (run (\<lambda>d. None) (new_FeedClient False False)
        [Listen True, SocketClose 0, TimerFires, SocketClose 1, TimerFires, SocketClose 2])
      = [1000, 2000, 4000]
   \<and> reconnectAttempts (client (run (\<lambda>d. None) (new_FeedClient False False)
        [Listen True, SocketClose 0, TimerFires, SocketClose 1, TimerFires, SocketClose 2])) = 3"
  using reconnect_backoff_schedule[of "new_FeedClient False False"
      "[Listen True, SocketClose 0, TimerFires, SocketClose 1, TimerFires, SocketClose 2]"
      3 "\<lambda>d. None"]
  by (simp add: run_def new_FeedClient_def listenForPriceUpdates_def on_close_def
      attemptReconnect_def Let_def maxReconnectAttempts_def reconnectDelay_def closedCount_def
      backoff_def upt_rec)

text \<open>
  C3. A client connects, the socket opens, and the caller calls \<open>close()\<close>. The handle
  is dropped and no timer is set by \<open>close()\<close> itself; but the close event of that socket
  then runs the close handler, which calls \<open>attemptReconnect\<close> as for an unplanned close:
  a reconnection is scheduled after \<open>reconnectDelay\<close>, and when the timer fires the
  client is connecting again.
\<close>

theorem close_schedules_reconnect:
  "ws (client (run P (new_FeedClient False False) [Listen True, SocketOpen 0, Close])) = None
   \<and> timers (run P (new_FeedClient False False) [Listen True, SocketOpen 0, Close]) = []
   \<and> timers (run P (new_FeedClient False False)
        [Listen True, SocketOpen 0, Close, SocketClose 0]) = [1000]
   \<and> reconnectAttempts (client (run P (new_FeedClient False False)
        [Listen True, SocketOpen 0, Close, SocketClose 0])) = 1
   \<and> ws (client (run P (new_FeedClient False False)
        [Listen True, SocketOpen 0, Close, SocketClose 0, TimerFires])) = Some 1"
  by (simp add: run_def new_FeedClient_def listenForPriceUpdates_def on_open_def close_def
      on_close_def attemptReconnect_def Let_def maxReconnectAttempts_def reconnectDelay_def)

text \<open>
  C7. What the open handler does: the counter is zero afterwards, and when the client has
  keys in \<open>callbacks\<close> and its current socket is open, one subscribe message is sent for
  all the keys of \<open>callbacks\<close>.
\<close>

lemma on_open_effect:
  "reconnectAttempts (client (on_open w)) = 0
   \<and> sent (on_open w) = sent w @
       (case ws (client w) of
          None \<Rightarrow> []
        | Some s \<Rightarrow> if callbacks (client w) \<noteq> [] \<and> s < length (sockets w) \<and> sockets w ! s = OPEN
                    then [(s, Subscribe (map fst (callbacks (client w))))] else [])"
  by (simp add: on_open_def Let_def subscribeToPriceFeeds_def split: option.splits)

text \<open>
  C7. A callback is registered for feed \<open>f\<close> and unregistered again; then the client
  connects and the socket opens. The feed has no observer, its key is still in
  \<open>callbacks\<close>, and the subscribe message names it.
\<close>

theorem open_subscribes_feed_without_observer:
  "observers (run P (new_FeedClient False False)
      [Register ''f'' 7, Unregister ''f'' 7, Listen True, SocketOpen 0]) ''f'' = []
   \<and> sent (run P (new_FeedClient False False)
      [Register ''f'' 7, Unregister ''f'' 7, Listen True, SocketOpen 0]) = [(0, Subscribe [''f''])]
   \<and> reconnectAttempts (client (run P (new_FeedClient False False)
      [Register ''f'' 7, Unregister ''f'' 7, Listen True, SocketOpen 0])) = 0"
  by (simp add: run_def new_FeedClient_def registerPriceFeedCallback_def
      unregisterPriceFeedCallback_def listenForPriceUpdates_def on_open_def
      subscribeToPriceFeeds_def observers_def Let_def)

text \<open>C9. The schema check of the code accepts exactly the objects the specification describes.\<close>

lemma z_string_Inr: "(\<exists>v. z_string j = Inr v) = is_str j"
  by (cases j rule: z_string.cases) auto

lemma z_number_Inr: "(\<exists>v. z_number j = Inr v) = is_num j"
  by (cases j rule: z_number.cases) auto

lemma PriceSchema_Inr: "(\<exists>v. PriceSchema_parse j = Inr v) = price_fields j"
proof (cases j rule: PriceSchema_parse.cases)
  case (1 kv)
  then show ?thesis
    using z_string_Inr[of "map_of kv ''price''"] z_string_Inr[of "map_of kv ''conf''"]
      z_number_Inr[of "map_of kv ''expo''"] z_number_Inr[of "map_of kv ''publishTime''"]
    by (auto split: sum.splits)
qed auto

lemma schema_Inr:
  "(\<exists>pf. PriceFeedResponseSchema_parse (JObj kv) = Inr pf) =
   (is_str (map_of kv ''id'') \<and> price_fields (map_of kv ''price'')
    \<and> price_fields (map_of kv ''emaPrice''))"
  using z_string_Inr[of "map_of kv ''id''"] PriceSchema_Inr[of "map_of kv ''price''"]
    PriceSchema_Inr[of "map_of kv ''emaPrice''"]
  by (auto split: sum.splits)

text \<open>
  C9. A message that is not a valid price update changes nothing: no observer is called,
  no socket changes state, nothing is sent and no timer is set. A valid one is passed, as
  the parsed price feed, to the observers registered for its feed id, in order, and to no
  other; the sockets, the client and the timers stay as they are.
\<close>

theorem message_dispatch:
  "(\<not> is_price_update (P data) \<longrightarrow> on_message P data w = w)
   \<and> (is_price_update (P data) \<longrightarrow>
        (\<exists>pf. PriceFeedResponseSchema_parse (the (P data)) = Inr pf
           \<and> on_message P data w =
               w\<lparr>delivered := delivered w @ map (\<lambda>cb. (cb, pf)) (observers w (id' pf))\<rparr>))"
proof (cases "P data")
  case None
  then show ?thesis by (simp add: on_message_def)
next
  case (Some m)
  show ?thesis
  proof (cases m)
    case (JObj kv)
    show ?thesis
    proof (cases "map_of kv ''type'' = Some (JStr ''price_update'')")
      case False
      with Some JObj show ?thesis by (simp add: on_message_def)
    next
      case True
      show ?thesis
      proof (cases "PriceFeedResponseSchema_parse (JObj kv)")
        case (Inl e)
        with schema_Inr[of kv] have "\<not> is_price_update (P data)"
          using Some JObj by auto
        with Some JObj True Inl show ?thesis
          by (simp add: on_message_def handlePriceUpdate_def)
      next
        case (Inr pf)
        with schema_Inr[of kv] have "is_price_update (P data)"
          using Some JObj True by auto
        with Some JObj True Inr show ?thesis
          by (simp add: on_message_def handlePriceUpdate_def observers_def split: option.splits)
      qed
    qed
  qed (insert Some, simp_all add: on_message_def)
qed


theorem message_dispatch_witness:
  "is_price_update (Some (JObj
      [(''type'', JStr ''price_update''), (''id'', JStr ''f''),
       (''price'', JObj [(''price'', JStr ''1''), (''conf'', JStr ''2''),
                          (''expo'', JNum (Fin (- 8))), (''publishTime'', JNum (Fin 9))]),
       (''emaPrice'', JObj [(''price'', JStr ''3''), (''conf'', JStr ''4''),
                             (''expo'', JNum (Fin (- 8))), (''publishTime'', JNum (Fin 9))])]))
   \<and> delivered (on_message
        (\<lambda>d. Some (JObj
           [(''type'', JStr ''price_update''), (''id'', JStr ''f''),
            (''price'', JObj [(''price'', JStr ''1''), (''conf'', JStr ''2''),
                               (''expo'', JNum (Fin (- 8))), (''publishTime'', JNum (Fin 9))]),
            (''emaPrice'', JObj [(''price'', JStr ''3''), (''conf'', JStr ''4''),
                                  (''expo'', JNum (Fin (- 8))), (''publishTime'', JNum (Fin 9))])]))
        ''data'' (registerPriceFeedCallback ''f'' 7 (new_FeedClient False False)))
      = [(7, \<lparr>id' = ''f'',
               price' = \<lparr>price = ''1'', conf = ''2'', expo = Fin (- 8), publishTime = Fin 9\<rparr>,
               emaPrice = \<lparr>price = ''3'', conf = ''4'', expo = Fin (- 8), publishTime = Fin 9\<rparr>\<rparr>)]
   \<and> \<not> is_price_update (Some (JObj
      [(''type'', JStr ''price_update''), (''id'', JStr ''f''),
       (''price'', JObj [(''price'', JStr ''1''), (''conf'', JStr ''2''),
                          (''expo'', JNum (Fin (- 8)))])]))
   \<and> on_message
        (\<lambda>d. Some (JObj
           [(''type'', JStr ''price_update''), (''id'', JStr ''f''),
            (''price'', JObj [(''price'', JStr ''1''), (''conf'', JStr ''2''),
                               (''expo'', JNum (Fin (- 8)))])]))
        ''data'' (registerPriceFeedCallback ''f'' 7 (new_FeedClient False False))
      = registerPriceFeedCallback ''f'' 7 (new_FeedClient False False)"
  using message_dispatch[of
      "\<lambda>d. Some (JObj
           [(''type'', JStr ''price_update''), (''id'', JStr ''f''),
            (''price'', JObj [(''price'', JStr ''1''), (''conf'', JStr ''2''),
                               (''expo'', JNum (Fin (- 8))), (''publishTime'', JNum (Fin 9))]),
            (''emaPrice'', JObj [(''price'', JStr ''3''), (''conf'', JStr ''4''),
                                  (''expo'', JNum (Fin (- 8))), (''publishTime'', JNum (Fin 9))])])"
      "''data''" "registerPriceFeedCallback ''f'' 7 (new_FeedClient False False)"]
    message_dispatch[of
      "\<lambda>d. Some (JObj
           [(''type'', JStr ''price_update''), (''id'', JStr ''f''),
            (''price'', JObj [(''price'', JStr ''1''), (''conf'', JStr ''2''),
                               (''expo'', JNum (Fin (- 8)))])])"
      "''data''" "registerPriceFeedCallback ''f'' 7 (new_FeedClient False False)"]
  by (simp add: observers_def registerPriceFeedCallback_def new_FeedClient_def Let_def)


section \<open>Properties of the PairsCache\<close>

lemma map_set_fresh: "k \<notin> fst ` set kvs \<Longrightarrow> map_set k v kvs = kvs @ [(k, v)]"
  by (induction kvs) auto

lemma map_of_map_set: "map_of (map_set k v kvs) = (map_of kvs)(k \<mapsto> v)"
  by (induction kvs) auto

lemma dom_map_of_fst: "fst ` set kvs = dom (map_of kvs)"
  by (simp add: dom_map_of_conv_image_fst)

lemma fst_map_set: "fst ` set (map_set k v kvs) = insert k (fst ` set kvs)"
  by (simp add: dom_map_of_fst map_of_map_set)

lemma fetchPairs_fails:
  "concat (map (failure_at c) is) = e # es \<Longrightarrow> fetchPairs c is ps ns = Inl e"
proof (induction "is" arbitrary: ps ns)
  case Nil
  then show ?case by simp
next
  case (Cons i "is")
  then show ?case
    by (auto simp: failure_at_def split: sum.splits)
qed

lemma fetchPairs_Inr:
  assumes "fetchPairs c is ps ns = Inr (ps', ns')" and "distinct is" and "set is \<inter> fst ` set ps = {}"
  shows "\<exists>xs. map fst xs = is \<and> ps' = ps @ xs \<and> ns' = names_of xs ns
           \<and> (\<forall>(i, p) \<in> set xs. \<exists>d. pairs c i = Inr d \<and> mkPairInfo d = Inr p)"
  using assms
proof (induction "is" arbitrary: ps ns)
  case Nil
  then show ?case by (simp add: names_of_def)
next
  case (Cons i "is")
  from Cons.prems(1) obtain d p where d: "pairs c i = Inr d" and p: "mkPairInfo d = Inr p"
    and r: "fetchPairs c is (map_set i p ps) (map_set (pairName p) i ns) = Inr (ps', ns')"
    by (auto split: sum.splits)
  from Cons.prems(3) have fresh: "i \<notin> fst ` set ps" by auto
  have ps1: "map_set i p ps = ps @ [(i, p)]" using fresh by (rule map_set_fresh)
  have "distinct is" using Cons.prems(2) by simp
  moreover have "set is \<inter> fst ` set (map_set i p ps) = {}"
    using Cons.prems(2,3) by (auto simp: ps1)
  ultimately obtain xs where
    k: "map fst xs = is" and e: "ps' = map_set i p ps @ xs"
    and n: "ns' = names_of xs (map_set (pairName p) i ns)"
    and ok: "\<forall>(i, p) \<in> set xs. \<exists>d. pairs c i = Inr d \<and> mkPairInfo d = Inr p"
    using Cons.IH[OF r] by blast
  let ?xs = "(i, p) # xs"
  have "map fst ?xs = i # is" using k by simp
  moreover have "ps' = ps @ ?xs" using e ps1 by simp
  moreover have "ns' = names_of ?xs ns" using n by (simp add: names_of_def)
  moreover have "\<forall>(i, p) \<in> set ?xs. \<exists>d. pairs c i = Inr d \<and> mkPairInfo d = Inr p"
    using ok d p by simp
  ultimately show ?case by (intro exI[of _ ?xs]) simp
qed

lemma fetchPairs_succeeds:
  "concat (map (failure_at c) is) = [] \<Longrightarrow> \<exists>r. fetchPairs c is ps ns = Inr r"
proof (induction "is" arbitrary: ps ns)
  case Nil
  then show ?case by simp
next
  case (Cons i "is")
  then show ?case
    by (auto simp: failure_at_def split: sum.splits)
qed

lemma names_of_keys: "fst ` set (names_of xs ns) = fst ` set ns \<union> pairName ` snd ` set xs"
proof (induction xs arbitrary: ns)
  case Nil
  then show ?case by (simp add: names_of_def)
next
  case (Cons x xs)
  obtain i p where x: "x = (i, p)" by (cases x)
  have "names_of (x # xs) ns = names_of xs (map_set (pairName p) i ns)"
    by (simp add: names_of_def x)
  then show ?case using Cons.IH[of "map_set (pairName p) i ns"] x
    by (simp add: fst_map_set)
qed

lemma names_of_other:
  "name \<notin> pairName ` snd ` set xs \<Longrightarrow> map_of (names_of xs ns) name = map_of ns name"
proof (induction xs arbitrary: ns)
  case Nil
  then show ?case by (simp add: names_of_def)
next
  case (Cons x xs)
  obtain i p where x: "x = (i, p)" by (cases x)
  have "names_of (x # xs) ns = names_of xs (map_set (pairName p) i ns)"
    by (simp add: names_of_def x)
  then show ?case using Cons x by (simp add: map_of_map_set)
qed

lemma names_of_lookup:
  "distinct (map (\<lambda>(i, p). pairName p) xs) \<Longrightarrow> (i, p) \<in> set xs \<Longrightarrow>
   map_of (names_of xs ns) (pairName p) = Some i"
proof (induction xs arbitrary: ns)
  case Nil
  then show ?case by simp
next
  case (Cons x xs)
  obtain j q where x: "x = (j, q)" by (cases x)
  have step: "names_of (x # xs) ns = names_of xs (map_set (pairName q) j ns)"
    by (simp add: names_of_def x)
  show ?case
  proof (cases "(i, p) \<in> set xs")
    case True
    with Cons show ?thesis unfolding step by simp
  next
    case False
    with Cons.prems(2) x have eq: "i = j" "p = q" by simp_all
    from Cons.prems(1) x have "pairName q \<notin> pairName ` snd ` set xs"
      by (force simp: image_iff)
    then have "map_of (names_of xs (map_set (pairName q) j ns)) (pairName q)
                = map_of (map_set (pairName q) j ns) (pairName q)"
      by (rule names_of_other)
    then show ?thesis unfolding step eq by (simp add: map_of_map_set)
  qed
qed

lemma getPairsInfo_fetch:
  assumes "pairsCache s = None \<or> forceRefresh"
  shows "getPairsInfo c forceRefresh s =
     (case pairsCount c of
        Inl e \<Rightarrow> (Inl e, s)
      | Inr count \<Rightarrow>
          (case fetchPairs c [0..<count] [] [] of
             Inl e \<Rightarrow> (Inl e, s)
           | Inr (ps, ns) \<Rightarrow> (Inr ps, s\<lparr>pairsCache := Some ps, pairNameToIndexMap := Some ns\<rparr>)))"
  using assms by (auto simp: getPairsInfo_def)

lemma fetch_step_frame:
  "snd (fetch_step c (t, s)) = s
   \<or> (\<exists>ps ns. fetch_step c (t, s) =
         (Settled (Inr ps), s\<lparr>pairsCache := Some ps, pairNameToIndexMap := Some ns\<rparr>))"
  by (cases t) (auto simp: loop_head_def split: sum.splits)

lemma fetch_step_settled: "settled t \<Longrightarrow> fetch_step c (t, s) = (t, s)"
  by (cases t) simp_all

lemma fetch_steps_cache:
  "settled (fst ((fetch_step c ^^ k) (t, s))) \<or> snd ((fetch_step c ^^ k) (t, s)) = s"
proof (induction k)
  case 0
  then show ?case by simp
next
  case (Suc k)
  obtain t' s' where r: "(fetch_step c ^^ k) (t, s) = (t', s')"
    by (cases "(fetch_step c ^^ k) (t, s)")
  show ?case
  proof (cases "settled t'")
    case True
    then show ?thesis using r by (simp add: fetch_step_settled)
  next
    case False
    with Suc r have "s' = s" by simp
    then show ?thesis using r fetch_step_frame[of c t' s] by auto
  qed
qed

lemma loop_runs:
  "\<exists>k. (fetch_step c ^^ k) (loop_head i count ps ns s)
        = settle (fetchPairs c [i..<count] ps ns) s"
proof (induction "count - i" arbitrary: i ps ns)
  case 0
  then have "\<not> i < count" by simp
  then have "(fetch_step c ^^ 0) (loop_head i count ps ns s)
        = settle (fetchPairs c [i..<count] ps ns) s"
    by (simp add: loop_head_def settle_def)
  then show ?case by (rule exI)
next
  case (Suc n)
  then have lt: "i < count" by simp
  then have up: "[i..<count] = i # [i + 1..<count]" by (simp add: upt_rec)
  have head: "loop_head i count ps ns s = (AwaitPair i count ps ns, s)"
    using lt by (simp add: loop_head_def)
  show ?case
  proof (cases "pairs c i")
    case (Inl e)
    then have "(fetch_step c ^^ 1) (loop_head i count ps ns s)
        = settle (fetchPairs c [i..<count] ps ns) s"
      unfolding head up by (simp add: settle_def)
    then show ?thesis by (rule exI)
  next
    case d: (Inr d)
    show ?thesis
    proof (cases "mkPairInfo d")
      case (Inl e)
      then have "(fetch_step c ^^ 1) (loop_head i count ps ns s)
          = settle (fetchPairs c [i..<count] ps ns) s"
        unfolding head up using d by (simp add: settle_def)
      then show ?thesis by (rule exI)
    next
      case (Inr p)
      let ?ps = "map_set i p ps" and ?ns = "map_set (pairName p) i ns"
      have "n = count - (i + 1)" using Suc(2) by simp
      from Suc(1)[OF this, of ?ps ?ns] obtain k where
        k: "(fetch_step c ^^ k) (loop_head (i + 1) count ?ps ?ns s)
              = settle (fetchPairs c [i + 1..<count] ?ps ?ns) s" ..
      have "(fetch_step c ^^ Suc k) (loop_head i count ps ns s)
          = settle (fetchPairs c [i..<count] ps ns) s"
        unfolding funpow_Suc_right o_apply head up using d Inr k by simp
      then show ?thesis by (rule exI)
    qed
  qed
qed

lemma fetch_runs:
  "\<exists>k. (fetch_step c ^^ k) (Called forceRefresh, s)
        = (Settled (fst (getPairsInfo c forceRefresh s)), snd (getPairsInfo c forceRefresh s))"
proof (cases "pairsCache s \<noteq> None \<and> \<not> forceRefresh")
  case True
  then have "(fetch_step c ^^ 1) (Called forceRefresh, s)
        = (Settled (fst (getPairsInfo c forceRefresh s)), snd (getPairsInfo c forceRefresh s))"
    by (simp add: getPairsInfo_def)
  then show ?thesis by (rule exI)
next
  case False
  then have f: "pairsCache s = None \<or> forceRefresh" by simp
  have c1: "fetch_step c (Called forceRefresh, s) = (AwaitCount, s)" using False by simp
  show ?thesis
  proof (cases "pairsCount c")
    case (Inl e)
    then have "(fetch_step c ^^ Suc (Suc 0)) (Called forceRefresh, s)
        = (Settled (fst (getPairsInfo c forceRefresh s)), snd (getPairsInfo c forceRefresh s))"
      unfolding funpow_Suc_right o_apply c1 getPairsInfo_fetch[OF f] by simp
    then show ?thesis by (rule exI)
  next
    case (Inr count)
    from loop_runs[of c 0 count "[]" "[]" s] obtain k where
      k: "(fetch_step c ^^ k) (loop_head 0 count [] [] s)
            = settle (fetchPairs c [0..<count] [] []) s" ..
    have "settle (fetchPairs c [0..<count] [] []) s
        = (Settled (fst (getPairsInfo c forceRefresh s)), snd (getPairsInfo c forceRefresh s))"
      unfolding getPairsInfo_fetch[OF f] using Inr
      by (simp add: settle_def split: sum.splits prod.splits)
    with k have "(fetch_step c ^^ Suc (Suc k)) (Called forceRefresh, s)
        = (Settled (fst (getPairsInfo c forceRefresh s)), snd (getPairsInfo c forceRefresh s))"
      unfolding funpow_Suc_right o_apply c1 using Inr by simp
    then show ?thesis by (rule exI)
  qed
qed

lemma getPairsInfo_result:
  assumes "pairsCache s = None \<or> forceRefresh"
  shows "(\<forall>e. first_failure c = Some e \<longrightarrow> getPairsInfo c forceRefresh s = (Inl e, s))
       \<and> (first_failure c = None \<longrightarrow>
            (\<exists>count ps ns. pairsCount c = Inr count
               \<and> getPairsInfo c forceRefresh s =
                   (Inr ps, s\<lparr>pairsCache := Some ps, pairNameToIndexMap := Some ns\<rparr>)
               \<and> map fst ps = [0..<count]
               \<and> (\<forall>(i, p) \<in> set ps. \<exists>d. pairs c i = Inr d \<and> mkPairInfo d = Inr p)
               \<and> fst ` set ns = pairName ` snd ` set ps))"
proof (cases "pairsCount c")
  case (Inl e)
  then show ?thesis using getPairsInfo_fetch[OF assms, of c] by (simp add: first_failure_def)
next
  case (Inr count)
  show ?thesis
  proof (cases "concat (map (failure_at c) [0..<count])")
    case Nil
    then obtain ps ns where r: "fetchPairs c [0..<count] [] [] = Inr (ps, ns)"
      using fetchPairs_succeeds[of c "[0..<count]" "[]" "[]"] by auto
    from fetchPairs_Inr[OF r] obtain xs where
      "map fst xs = [0..<count]" "ps = xs" "ns = names_of xs []"
      "\<forall>(i, p) \<in> set xs. \<exists>d. pairs c i = Inr d \<and> mkPairInfo d = Inr p"
      by auto
    then have A: "map fst ps = [0..<count]"
      and B: "\<forall>(i, p) \<in> set ps. \<exists>d. pairs c i = Inr d \<and> mkPairInfo d = Inr p"
      and C: "fst ` set ns = pairName ` snd ` set ps"
      by (simp_all add: names_of_keys)
    have G: "getPairsInfo c forceRefresh s =
        (Inr ps, s\<lparr>pairsCache := Some ps, pairNameToIndexMap := Some ns\<rparr>)"
      using getPairsInfo_fetch[OF assms, of c] Inr r by simp
    have F: "first_failure c = None"
      by (simp only: first_failure_def Inr Nil sum.case list.case)
    have "\<exists>count ps ns. pairsCount c = Inr count
               \<and> getPairsInfo c forceRefresh s =
                   (Inr ps, s\<lparr>pairsCache := Some ps, pairNameToIndexMap := Some ns\<rparr>)
               \<and> map fst ps = [0..<count]
               \<and> (\<forall>(i, p) \<in> set ps. \<exists>d. pairs c i = Inr d \<and> mkPairInfo d = Inr p)
               \<and> fst ` set ns = pairName ` snd ` set ps"
      using Inr G A B C by (intro exI[of _ count] exI[of _ ps] exI[of _ ns]) simp
    with F show ?thesis by simp
  next
    case (Cons e es)
    then have "fetchPairs c [0..<count] [] [] = Inl e" by (rule fetchPairs_fails)
    then have "getPairsInfo c forceRefresh s = (Inl e, s)"
      using getPairsInfo_fetch[OF assms, of c] Inr by simp
    moreover have "first_failure c = Some e"
      by (simp only: first_failure_def Inr Cons sum.case list.case)
    ultimately show ?thesis by simp
  qed
qed

text \<open>
  C1. When \<open>getPairsInfo\<close> fetches (no cache yet, or \<open>forceRefresh\<close>): if a read fails during
  the population, the promise is rejected with the first failure and the cache is exactly
  as before, both maps; otherwise both maps are replaced together, the pair map has the
  indexes \<open>0, \<dots>, count - 1\<close>, each with the pair read for it, and the name map has
  exactly the names of these pairs. At every suspension point of the method the cache is
  the one from before the call, and the method settles, with this result and this cache.
\<close>

theorem getPairsInfo_all_or_nothing:
  assumes "pairsCache s = None \<or> forceRefresh"
  shows "(\<forall>e. first_failure c = Some e \<longrightarrow> getPairsInfo c forceRefresh s = (Inl e, s))
       \<and> (first_failure c = None \<longrightarrow>
            (\<exists>count ps ns. pairsCount c = Inr count
               \<and> getPairsInfo c forceRefresh s =
                   (Inr ps, s\<lparr>pairsCache := Some ps, pairNameToIndexMap := Some ns\<rparr>)
               \<and> map fst ps = [0..<count]
               \<and> (\<forall>(i, p) \<in> set ps. \<exists>d. pairs c i = Inr d \<and> mkPairInfo d = Inr p)
               \<and> fst ` set ns = pairName ` snd ` set ps))
       \<and> (\<forall>k. settled (fst ((fetch_step c ^^ k) (Called forceRefresh, s)))
              \<or> snd ((fetch_step c ^^ k) (Called forceRefresh, s)) = s)
       \<and> (\<exists>k. (fetch_step c ^^ k) (Called forceRefresh, s) =
              (Settled (fst (getPairsInfo c forceRefresh s)),
               snd (getPairsInfo c forceRefresh s)))"
proof -
  note r = getPairsInfo_result[OF assms, of c]
  from r have 1: "\<forall>e. first_failure c = Some e \<longrightarrow> getPairsInfo c forceRefresh s = (Inl e, s)" ..
  from r have 2: "first_failure c = None \<longrightarrow>
            (\<exists>count ps ns. pairsCount c = Inr count
               \<and> getPairsInfo c forceRefresh s =
                   (Inr ps, s\<lparr>pairsCache := Some ps, pairNameToIndexMap := Some ns\<rparr>)
               \<and> map fst ps = [0..<count]
               \<and> (\<forall>(i, p) \<in> set ps. \<exists>d. pairs c i = Inr d \<and> mkPairInfo d = Inr p)
               \<and> fst ` set ns = pairName ` snd ` set ps)" ..
  have 3: "\<forall>k. settled (fst ((fetch_step c ^^ k) (Called forceRefresh, s)))
              \<or> snd ((fetch_step c ^^ k) (Called forceRefresh, s)) = s"
    by (intro allI fetch_steps_cache)
  from 1 2 3 fetch_runs[of c forceRefresh s] show ?thesis by (intro conjI)
qed

theorem getPairsInfo_all_or_nothing_witness:
  "first_failure broken_ledger = Some (RemoteError ''timeout'')
   \<and> getPairsInfo broken_ledger True \<lparr>pairsCache = Some [], pairNameToIndexMap = Some []\<rparr>
       = (Inl (RemoteError ''timeout''), \<lparr>pairsCache = Some [], pairNameToIndexMap = Some []\<rparr>)
   \<and> first_failure ledger = None
   \<and> map_option (map fst) (pairsCache (snd (getPairsInfo ledger False new_PairsCache)))
       = Some [0, 1, 2]
   \<and> pairNameToIndexMap (snd (getPairsInfo ledger False new_PairsCache))
       = Some [(''BTC/USD'', 0), (''ETH/USD'', 1), (''EUR/USD'', 2)]
   \<and> fst ((fetch_step ledger ^^ 3) (Called False, new_PairsCache))
       = AwaitPair 1 3 [(0, projr (mkPairInfo btc_usd))] [(''BTC/USD'', 0)]
   \<and> snd ((fetch_step ledger ^^ 3) (Called False, new_PairsCache)) = new_PairsCache"
proof -
  have b: "pairsCache \<lparr>pairsCache = Some [], pairNameToIndexMap = Some []\<rparr> = None \<or> True"
    and l: "pairsCache new_PairsCache = None \<or> False"
    by (simp_all add: new_PairsCache_def)
  note B = getPairsInfo_all_or_nothing[OF b, of broken_ledger]
  note L = getPairsInfo_all_or_nothing[OF l, of ledger]
  have results: "first_failure broken_ledger = Some (RemoteError ''timeout'')
   \<and> getPairsInfo broken_ledger True \<lparr>pairsCache = Some [], pairNameToIndexMap = Some []\<rparr>
       = (Inl (RemoteError ''timeout''), \<lparr>pairsCache = Some [], pairNameToIndexMap = Some []\<rparr>)
   \<and> first_failure ledger = None
   \<and> map_option (map fst) (pairsCache (snd (getPairsInfo ledger False new_PairsCache)))
       = Some [0, 1, 2]
   \<and> pairNameToIndexMap (snd (getPairsInfo ledger False new_PairsCache))
       = Some [(''BTC/USD'', 0), (''ETH/USD'', 1), (''EUR/USD'', 2)]"
    using B[THEN conjunct1] L[THEN conjunct2, THEN conjunct1]
    by (simp add: first_failure_def failure_at_def broken_ledger_def ledger_def mkPairInfo_def
        btc_usd_def eth_usd_def eur_usd_def upt_rec getPairsInfo_def new_PairsCache_def
        pairName_def)
  have three: "(fetch_step ledger ^^ 3) x = fetch_step ledger (fetch_step ledger (fetch_step ledger x))"
    for x by (simp add: numeral_3_eq_3)
  have t: "fst ((fetch_step ledger ^^ 3) (Called False, new_PairsCache))
       = AwaitPair 1 3 [(0, projr (mkPairInfo btc_usd))] [(''BTC/USD'', 0)]"
    unfolding three
    by (simp add: new_PairsCache_def ledger_def loop_head_def mkPairInfo_def btc_usd_def
        pairName_def)
  from L[THEN conjunct2, THEN conjunct2, THEN conjunct1, THEN spec, of 3]
  have "snd ((fetch_step ledger ^^ 3) (Called False, new_PairsCache)) = new_PairsCache"
    unfolding t by simp
  with results t show ?thesis by (simp only: simp_thms)
qed

text \<open>
  C5. After a \<open>getPairsInfo\<close> that fetched and succeeded, if the names \<open>from/to\<close> of the
  fetched pairs are distinct, then for every cached pair \<open>p\<close> with index \<open>i\<close> the name of
  \<open>p\<close> resolves to \<open>i\<close>, index \<open>i\<close> resolves to \<open>p\<close>, and to the name of \<open>p\<close>.
\<close>

theorem pair_lookup_inverse:
  assumes "pairsCache s = None \<or> forceRefresh"
    and "getPairsInfo c forceRefresh s = (Inr ps, s')"
    and "distinct (map (\<lambda>(i, p). pairName p) ps)"
    and "(i, p) \<in> set ps"
  shows "getPairIndex c (pairName p) s' = (Inr (Some i), s')
       \<and> getPairByIndex c i s' = (Inr (Some p), s')
       \<and> getPairName c i s' = (Inr (Some (pairName p)), s')"
proof -
  from assms(1,2) obtain count ns where
    r: "fetchPairs c [0..<count] [] [] = Inr (ps, ns)" and
    s': "s' = s\<lparr>pairsCache := Some ps, pairNameToIndexMap := Some ns\<rparr>"
    using getPairsInfo_fetch[OF assms(1), of c]
    by (auto split: sum.splits prod.splits)
  from fetchPairs_Inr[OF r] have k: "map fst ps = [0..<count]" and n: "ns = names_of ps []"
    by auto
  from k have "distinct (map fst ps)" by simp
  with assms(4) have look: "map_of ps i = Some p" by simp
  have "map_of ns (pairName p) = Some i"
    unfolding n using assms(3,4) by (rule names_of_lookup)
  then have "getPairIndex c (pairName p) s' = (Inr (Some i), s')"
    by (simp add: getPairIndex_def s')
  moreover have "getPairsInfo c False s' = (Inr ps, s')"
    by (simp add: getPairsInfo_def s')
  then have "getPairByIndex c i s' = (Inr (Some p), s')"
    by (simp add: getPairByIndex_def look)
  moreover have "getPairName c i s' = (Inr (Some (pairName p)), s')"
    by (simp add: getPairName_def s' look)
  ultimately show ?thesis by simp
qed

theorem pair_lookup_inverse_witness:
  "getPairIndex ledger ''ETH/USD'' (snd (getPairsInfo ledger False new_PairsCache))
     = (Inr (Some 1), snd (getPairsInfo ledger False new_PairsCache))
   \<and> getPairByIndex ledger 1 (snd (getPairsInfo ledger False new_PairsCache))
     = (Inr (Some (projr (mkPairInfo eth_usd))), snd (getPairsInfo ledger False new_PairsCache))
   \<and> getPairName ledger 1 (snd (getPairsInfo ledger False new_PairsCache))
     = (Inr (Some ''ETH/USD''), snd (getPairsInfo ledger False new_PairsCache))"
  using pair_lookup_inverse[of new_PairsCache False ledger
      "[(0, projr (mkPairInfo btc_usd)), (1, projr (mkPairInfo eth_usd)),
        (2, projr (mkPairInfo eur_usd))]"
      "snd (getPairsInfo ledger False new_PairsCache)" 1 "projr (mkPairInfo eth_usd)"]
  by (simp add: ledger_def mkPairInfo_def btc_usd_def eth_usd_def eur_usd_def upt_rec
      getPairsInfo_def new_PairsCache_def pairName_def)


section \<open>Properties of the TradeRPC\<close>

text \<open>
  C10. An order type that is neither one of the four keys of the table nor a key of
  \<open>Object.prototype\<close> is turned into \<open>0\<close>, and the transaction built for it is the one
  built for a market order: the same result, error or payload, and the same cache.
\<close>

lemma unknown_order_type_is_market:
  assumes "orderType' \<notin> {''market'', ''limit'', ''stop_limit'', ''market_zero_fee''}"
    and "orderType' \<notin> set Object_prototype"
  shows "getOrderTypeValue orderType' = OrderNum 0
       \<and> buildTradeOpenTx c t (tradeInput\<lparr>orderType := orderType'\<rparr>) s =
           buildTradeOpenTx c t (tradeInput\<lparr>orderType := ''market''\<rparr>) s"
proof -
  from assms(1) have "map_of orderTypes orderType' = None"
    by (simp add: orderTypes_def)
  with assms(2) have v: "getOrderTypeValue orderType' = OrderNum 0"
    by (simp add: getOrderTypeValue_def)
  have m: "getOrderTypeValue ''market'' = OrderNum 0"
    by (simp add: getOrderTypeValue_def orderTypes_def)
  show ?thesis using v m
    by (simp add: buildTradeOpenTx_def Let_def split: prod.splits sum.splits option.splits)
qed

text \<open>
  C10. The order type \<open>toString\<close> is not one of the four recognised values, and yet what
  reaches the encoder is not the number \<open>0\<close> but the function
  \<open>Object.prototype.toString\<close>; an encoder that refuses it (as one of a \<open>uint8\<close> argument
  does) makes \<open>buildTradeOpenTx\<close> fail where a market order succeeds.
\<close>

theorem inherited_order_type_is_not_market:
  "''toString'' \<notin> {''market'', ''limit'', ''stop_limit'', ''market_zero_fee''}
   \<and> getOrderTypeValue ''toString'' = Inherited ''toString''
   \<and> getOrderTypeValue ''toString'' \<noteq> OrderNum 0
   \<and> fst (buildTradeOpenTx ledger
        \<lparr>getExecutionFee = Inr 0, getAddress = Inr ''0xT'',
         encode_openTrade = (\<lambda>trade v slippage ref.
            case v of OrderNum n \<Rightarrow> Inr ''payload'' | Inherited k \<Rightarrow> Inl TypeError)\<rparr>
        \<lparr>pair = ''BTC/USD'', isLong = True, collateralInTrade = Fin 0, leverage = Fin 0,
         openPrice = Fin 0, tp = Fin 0, sl = Fin 0, referrer = [], orderType = ''toString'',
         maxSlippageP = Fin 0\<rparr> new_PairsCache) = Inl TypeError
   \<and> fst (buildTradeOpenTx ledger
        \<lparr>getExecutionFee = Inr 0, getAddress = Inr ''0xT'',
         encode_openTrade = (\<lambda>trade v slippage ref.
            case v of OrderNum n \<Rightarrow> Inr ''payload'' | Inherited k \<Rightarrow> Inl TypeError)\<rparr>
        \<lparr>pair = ''BTC/USD'', isLong = True, collateralInTrade = Fin 0, leverage = Fin 0,
         openPrice = Fin 0, tp = Fin 0, sl = Fin 0, referrer = [], orderType = ''market'',
         maxSlippageP = Fin 0\<rparr> new_PairsCache)
       = Inr \<lparr>tx_to = ''0xT'', tx_data = ''payload'', tx_value = 0\<rparr>"
  by (simp add: getOrderTypeValue_def orderTypes_def Object_prototype_def buildTradeOpenTx_def
      getPairIndex_def getPairsInfo_def new_PairsCache_def ledger_def mkPairInfo_def
      btc_usd_def eth_usd_def eur_usd_def upt_rec pairName_def toBlockchain6_def
      toBlockchain10_def round64_def nearest_def getTradeExecutionFee_def Let_def)


section \<open>Properties of the arithmetic of numbers\<close>

subsection \<open>Rounding to the nearest integer\<close>

lemma rne_of_int: "rne (of_int k) = k"
  by (simp add: rne_def)


lemma rne_eqI:
  assumes "of_int n - 1 / 2 < y" and "y < of_int n + 1 / 2"
  shows "rne y = n"
proof -
  have "\<lfloor>y\<rfloor> = n \<or> \<lfloor>y\<rfloor> = n - 1"
  proof -
    have "of_int (n - 1) \<le> y" using assms(1) by simp
    then have "n - 1 \<le> \<lfloor>y\<rfloor>" by (simp only: le_floor_iff)
    moreover have "y < of_int (n + 1)" using assms(2) by simp
    then have "\<lfloor>y\<rfloor> < n + 1" by (simp only: floor_less_iff)
    ultimately show ?thesis by linarith
  qed
  then show ?thesis
  proof
    assume f: "\<lfloor>y\<rfloor> = n"
    then have "y - of_int \<lfloor>y\<rfloor> < 1 / 2" using assms(2) by simp
    then show ?thesis using f by (simp add: rne_def Let_def)
  next
    assume f: "\<lfloor>y\<rfloor> = n - 1"
    then have "1 / 2 < y - of_int \<lfloor>y\<rfloor>" using assms(1) by simp
    then show ?thesis using f by (simp add: rne_def Let_def)
  qed
qed



subsection \<open>The binary exponent\<close>

lemma two_powi_pos: "0 < (2::rat) powi e"
  by simp

lemma two_powi_Suc: "(2::rat) powi (e + 1) = 2 * 2 powi e"
  by (simp add: power_int_add_1)

lemma two_powi_pred: "(2::rat) powi (e - 1) = 2 powi e / 2"
  using two_powi_Suc[of "e - 1"] by simp

lemma ilog2_bounds:
  assumes "x \<noteq> 0"
  shows "2 powi (ilog2 x) \<le> \<bar>x\<bar> \<and> \<bar>x\<bar> < 2 powi (ilog2 x + 1)"
proof -
  obtain p q where pq: "quotient_of \<bar>x\<bar> = (p, q)" by (cases "quotient_of \<bar>x\<bar>")
  then have q: "0 < q" by (rule quotient_of_denom_pos)
  from pq have x: "\<bar>x\<bar> = of_int p / of_int q" by (rule quotient_of_div)
  have "0 < \<bar>x\<bar>" using assms by simp
  then have p: "0 < p" using q x by (simp add: zero_less_divide_iff)
  define a where "a = floorlog 2 (nat p)"
  define b where "b = floorlog 2 (nat q)"
  define e where "e = int a - int b"
  have pa: "2 ^ (a - 1) \<le> nat p \<and> nat p < 2 ^ a"
    unfolding a_def using floorlog_bounds[of "nat p" 2] p by simp
  have qb: "2 ^ (b - 1) \<le> nat q \<and> nat q < 2 ^ b"
    unfolding b_def using floorlog_bounds[of "nat q" 2] q by simp
  have a1: "1 \<le> a" using p by (simp add: a_def floorlog_def)
  have b1: "1 \<le> b" using q by (simp add: b_def floorlog_def)
  have pa': "(2::rat) ^ a \<le> 2 * of_int p \<and> (of_int p :: rat) < 2 ^ a"
  proof -
    from pa have "of_nat (2 ^ (a - 1)) \<le> (of_nat (nat p) :: rat)" by (simp only: of_nat_le_iff)
    then have "(2::rat) ^ (a - 1) \<le> of_int p" using p by simp
    moreover have "(2::rat) ^ a = 2 * 2 ^ (a - 1)" using a1 by (cases a) simp_all
    moreover from pa have "(of_nat (nat p) :: rat) < of_nat (2 ^ a)" by (simp only: of_nat_less_iff)
    then have "(of_int p :: rat) < 2 ^ a" using p by simp
    ultimately show ?thesis by simp
  qed
  have qb': "(2::rat) ^ b \<le> 2 * of_int q \<and> (of_int q :: rat) < 2 ^ b"
  proof -
    from qb have "of_nat (2 ^ (b - 1)) \<le> (of_nat (nat q) :: rat)" by (simp only: of_nat_le_iff)
    then have "(2::rat) ^ (b - 1) \<le> of_int q" using q by simp
    moreover have "(2::rat) ^ b = 2 * 2 ^ (b - 1)" using b1 by (cases b) simp_all
    moreover from qb have "(of_nat (nat q) :: rat) < of_nat (2 ^ b)" by (simp only: of_nat_less_iff)
    then have "(of_int q :: rat) < 2 ^ b" using q by simp
    ultimately show ?thesis by simp
  qed
  have e: "(2::rat) powi e = 2 ^ a / 2 ^ b"
    unfolding e_def by (simp add: power_int_diff)
  have qpos: "(0::rat) < of_int q" using q by simp
  have ppos: "(0::rat) < of_int p" using p by simp
  have upper: "\<bar>x\<bar> < 2 * 2 powi e"
  proof -
    have "of_int p * 2 ^ b < (2::rat) ^ a * (2 * of_int q)"
    proof -
      have "of_int p * 2 ^ b \<le> of_int p * (2 * of_int q :: rat)"
        using qb' ppos by (intro mult_left_mono) simp_all
      also have "\<dots> < 2 ^ a * (2 * of_int q)"
        using pa' qpos by (intro mult_strict_right_mono) simp_all
      finally show ?thesis .
    qed
    then show ?thesis unfolding x e using qpos by (simp add: field_simps)
  qed
  have lower: "2 powi e / 2 < \<bar>x\<bar>"
  proof -
    have "(2::rat) ^ a * of_int q < 2 * of_int p * 2 ^ b"
    proof -
      have "(2::rat) ^ a * of_int q \<le> 2 * of_int p * of_int q"
        using pa' qpos by (intro mult_right_mono) simp_all
      also have "\<dots> < 2 * of_int p * 2 ^ b"
        using qb' ppos by (intro mult_strict_left_mono) simp_all
      finally show ?thesis .
    qed
    then show ?thesis unfolding x e using qpos by (simp add: field_simps)
  qed
  have il: "ilog2 x = (if 2 powi e \<le> \<bar>x\<bar> then e else e - 1)"
    by (simp add: ilog2_def pq a_def b_def e_def Let_def)
  show ?thesis
  proof (cases "2 powi e \<le> \<bar>x\<bar>")
    case True
    then show ?thesis using il upper by (simp add: two_powi_Suc)
  next
    case False
    then show ?thesis using il lower by (simp add: two_powi_pred)
  qed
qed

lemma ilog2_eqI:
  assumes "2 powi e \<le> \<bar>x\<bar>" and "\<bar>x\<bar> < 2 powi (e + 1)"
  shows "ilog2 x = e"
proof -
  have "0 < \<bar>x\<bar>" using assms(1) two_powi_pos[of e] by linarith
  then have nz: "x \<noteq> 0" by simp
  note b = ilog2_bounds[OF nz]
  have "(2::rat) powi e < 2 powi (ilog2 x + 1)" using assms(1) b by linarith
  then have "e < ilog2 x + 1"
    by (metis linorder_not_less power_int_increasing one_le_numeral)
  moreover have "(2::rat) powi ilog2 x < 2 powi (e + 1)" using assms(2) b by linarith
  then have "ilog2 x < e + 1"
    by (metis linorder_not_less power_int_increasing one_le_numeral)
  ultimately show ?thesis by simp
qed



subsection \<open>Rounding to binary64: exact on its values, monotone\<close>


lemma two_powi_add: "(2::rat) powi (a + b) = 2 powi a * 2 powi b"
  by (simp add: power_int_add)




lemma ilog2_scaled:
  assumes "x \<noteq> 0"
  shows "ilog2 (x * 2 powi q) = ilog2 x + q"
proof (rule ilog2_eqI)
  note b = ilog2_bounds[OF assms]
  have a: "\<bar>x * 2 powi q\<bar> = \<bar>x\<bar> * 2 powi q" by (simp add: abs_mult)
  show "2 powi (ilog2 x + q) \<le> \<bar>x * 2 powi q\<bar>"
    unfolding a two_powi_add using b by (intro mult_right_mono) simp_all
  have "\<bar>x\<bar> * 2 powi q < 2 powi (ilog2 x + 1) * 2 powi q"
    using b by (intro mult_strict_right_mono) simp_all
  then show "\<bar>x * 2 powi q\<bar> < 2 powi (ilog2 x + q + 1)"
    unfolding a by (simp add: two_powi_add mult.commute)
qed

lemma nearest_grid:
  assumes "0 < n" and "n \<le> 2 ^ 53" and "- 1074 \<le> q"
  shows "nearest (of_int n * 2 powi q) = of_int n * 2 powi q"
proof -
  let ?r = "of_int n * 2 powi q :: rat"
  have npos: "(0::rat) < of_int n" using assms(1) by simp
  then have nz: "(of_int n :: rat) \<noteq> 0" by simp
  have rnz: "?r \<noteq> 0" using nz by simp
  define k where "k = ilog2 (of_int n)"
  have kb: "2 powi k \<le> (of_int n :: rat)" "(of_int n :: rat) < 2 powi (k + 1)"
    using ilog2_bounds[OF nz] npos by (simp_all add: k_def)
  have k0: "0 \<le> k"
  proof -
    have "(2::rat) powi 0 \<le> of_int n" using assms(1) by simp
    also have "\<dots> < 2 powi (k + 1)" by (rule kb)
    finally have "(0::int) < k + 1"
      by (metis linorder_not_less power_int_increasing one_le_numeral)
    then show ?thesis by simp
  qed
  have k53: "k \<le> 53"
  proof -
    have "(of_int n :: rat) \<le> of_int (2 ^ 53)" using assms(2) by (simp only: of_int_le_iff)
    then have "(2::rat) powi k \<le> 2 powi 53" using kb(1) by simp
    then show ?thesis
      by (metis linorder_not_less power_int_strict_increasing one_less_numeral_iff semiring_norm(76))
  qed
  have er: "ilog2 ?r = k + q" unfolding k_def by (rule ilog2_scaled[OF nz])
  have ue: "ulp_exp ?r = max (k + q - 52) (- 1074)" by (simp add: ulp_exp_def er)
  show ?thesis
  proof (cases "k \<le> 52")
    case True
    define q' where "q' = max (k + q - 52) (- 1074)"
    have le: "q' \<le> q" using True assms(3) by (simp add: q'_def)
    define m where "m = nat (q - q')"
    have split: "(2::rat) powi q = 2 ^ m * 2 powi q'"
    proof -
      have "q = int m + q'" using le by (simp add: m_def)
      then have "(2::rat) powi q = 2 powi (int m + q')" by simp
      then show ?thesis by (simp only: two_powi_add power_int_of_nat)
    qed
    have "?r / 2 powi q' = of_int (n * 2 ^ m)" by (simp add: split)
    then have "rne (?r / 2 powi q') = n * 2 ^ m" by (simp only: rne_of_int)
    then have "nearest ?r = of_int (n * 2 ^ m) * 2 powi q'"
      using rnz ue by (simp add: nearest_def q'_def)
    then show ?thesis by (simp add: split)
  next
    case False
    with k53 have k: "k = 53" by simp
    have "(of_int (2 ^ 53) :: rat) \<le> of_int n" using kb(1) k by simp
    then have "2 ^ 53 \<le> n" by (simp only: of_int_le_iff)
    with assms(2) have n: "n = 2 ^ 53" by simp
    have ue': "ulp_exp ?r = q + 1" using ue k assms(3) by simp
    have "?r / 2 powi (q + 1) = of_int (2 ^ 52)" by (simp add: n two_powi_Suc)
    then have "rne (?r / 2 powi (q + 1)) = 2 ^ 52" by (simp only: rne_of_int)
    then have "nearest ?r = of_int (2 ^ 52) * 2 powi (q + 1)"
      using rnz ue' by (simp add: nearest_def)
    then show ?thesis by (simp add: n two_powi_Suc)
  qed
qed


lemma nearest_of_int:
  assumes "0 \<le> k" and "k \<le> 2 ^ 53"
  shows "nearest (of_int k) = of_int k"
proof (cases "k = 0")
  case True
  then show ?thesis by (simp add: nearest_def)
next
  case False
  with assms(1) have "0 < k" by simp
  from nearest_grid[OF this assms(2), of 0] show ?thesis by simp
qed





subsection \<open>round64 on non-negative values\<close>





subsection \<open>The maps of the category aggregator\<close>











subsection \<open>Evaluating the rounding at given values\<close>

lemma nearest_eval:
  assumes "2 powi e \<le> x" and "x < 2 powi (e + 1)" and "q = max (e - 52) (- 1074)"
    and "of_int n - 1 / 2 < x / 2 powi q" and "x / 2 powi q < of_int n + 1 / 2"
  shows "nearest x = of_int n * 2 powi q"
proof -
  have xp: "0 < x" using assms(1) two_powi_pos[of e] by linarith
  then have ax: "\<bar>x\<bar> = x" by simp
  have "ilog2 x = e" using assms(1,2) by (intro ilog2_eqI) (simp_all add: ax)
  then have "ulp_exp x = q" by (simp add: ulp_exp_def assms(3))
  moreover have "rne (x / 2 powi q) = n" using assms(4,5) by (rule rne_eqI)
  ultimately show ?thesis using xp by (simp add: nearest_def)
qed

lemma round64_Fin:
  assumes "nearest x = r" and "- (2 ^ 1024) < r" and "r < 2 ^ 1024"
  shows "round64 x = Fin r"
  using assms by (simp add: round64_def)

lemma round64_249: "round64 249 = Fin 249"
  using nearest_of_int[of 249] by (intro round64_Fin) simp_all

lemma from6_249: "fromBlockchain6 249 = Fin (2296619637176839 / 9223372036854775808)"
proof -
  have "nearest (249 / 10 ^ 6) = of_int 4593239274353678 * 2 powi (- 64)"
    by (rule nearest_eval[where e = "- 12"]) simp_all
  then have "nearest (249 / 10 ^ 6) = 2296619637176839 / 9223372036854775808" by simp
  then have "round64 (249 / 10 ^ 6) = Fin (2296619637176839 / 9223372036854775808)"
    by (rule round64_Fin) simp_all
  then show ?thesis using round64_249 by (simp add: fromBlockchain6_def Number_def)
qed

lemma to6_from6_249: "toBlockchain6 (fromBlockchain6 249) = Inr 248"
proof -
  have "nearest (2296619637176839 / 9223372036854775808 * 10 ^ 6)
          = of_int 8760908650119167 * 2 powi (- 45)"
    by (rule nearest_eval[where e = 7]) simp_all
  then have "nearest (2296619637176839 / 9223372036854775808 * 10 ^ 6)
          = 8760908650119167 / 35184372088832" by simp
  then have "round64 (2296619637176839 / 9223372036854775808 * 10 ^ 6)
          = Fin (8760908650119167 / 35184372088832)"
    by (rule round64_Fin) simp_all
  moreover have "\<lfloor>8760908650119167 / 35184372088832 :: rat\<rfloor> = 248"
    by (rule floor_unique) simp_all
  ultimately show ?thesis by (simp add: toBlockchain6_def from6_249)
qed




subsection \<open>Rounding of negative values, and the floor of a rounded value\<close>











subsection \<open>The conversions between display values and ledger integers\<close>






text \<open>
  The round trip may lose a unit: \<open>fromBlockchain6(249n)\<close> is the number nearest to
  \<open>0.000249\<close>, which lies below it, and \<open>toBlockchain6\<close> of that number is \<open>248n\<close>; likewise
  \<open>toBlockchain10(fromBlockchain10(43n))\<close> is \<open>42n\<close>. Each further round trip can lose another.
\<close>

lemma to10_from10_43: "toBlockchain10 (fromBlockchain10 43) = Inr 42"
proof -
  have "round64 43 = Fin 43"
    using nearest_of_int[of 43] by (intro round64_Fin) simp_all
  moreover have "nearest (43 / 10 ^ 10) = of_int 5198381024342905 * 2 powi (- 80)"
    by (rule nearest_eval[where e = "- 28"]) simp_all
  then have "nearest (43 / 10 ^ 10) = 5198381024342905 / 1208925819614629174706176" by simp
  then have "round64 (43 / 10 ^ 10) = Fin (5198381024342905 / 1208925819614629174706176)"
    by (rule round64_Fin) simp_all
  ultimately have d: "fromBlockchain10 43 = Fin (5198381024342905 / 1208925819614629174706176)"
    by (simp add: fromBlockchain10_def Number_def)
  have "nearest (5198381024342905 / 1208925819614629174706176 * 10 ^ 10)
          = of_int 6051711999279103 * 2 powi (- 47)"
    by (rule nearest_eval[where e = 5]) simp_all
  then have "nearest (5198381024342905 / 1208925819614629174706176 * 10 ^ 10)
          = 6051711999279103 / 140737488355328" by simp
  then have "round64 (5198381024342905 / 1208925819614629174706176 * 10 ^ 10)
          = Fin (6051711999279103 / 140737488355328)"
    by (rule round64_Fin) simp_all
  moreover have "\<lfloor>6051711999279103 / 140737488355328 :: rat\<rfloor> = 42"
    by (rule floor_unique) simp_all
  ultimately show ?thesis by (simp add: toBlockchain10_def d)
qed


section \<open>Properties of the SnapshotRPC\<close>

subsection \<open>Reads on a populated cache\<close>



lemma getPairsInfo_Inl_state:
  "getPairsInfo c f s = (Inl e, s') \<Longrightarrow> s' = s"
  by (auto simp: getPairsInfo_def split: if_splits sum.splits prod.splits)








subsection \<open>The keys of the snapshot\<close>





subsection \<open>The loops of \<open>getSnapshot\<close>\<close>





subsection \<open>The category maps on a populated cache\<close>






subsection \<open>\<open>getSnapshot\<close>\<close>













subsection \<open>The example ledgers\<close>












end
